theory Spec2Isabelle
  imports Main
begin

section \<open>Language Learning Buddy: the action handlers over a relational store\<close>

text \<open>
  The repository is one module of remote-callable actions (\<^verbatim>\<open>server\<close>) over three tables
  (\<^verbatim>\<open>src/db/tables.ts\<close>). Every handler is modelled as a function from the parsed input,
  the call context and the database to a result and the database it leaves behind.
  A thrown \<^verbatim>\<open>ActionError\<close> is the \<open>Inl\<close> branch of the result.

  Timestamps (\<^verbatim>\<open>Date\<close>) are integers (milliseconds), the integers accepted by
  \<^verbatim>\<open>z.number().int()\<close> are \<open>int\<close>, an optional schema field or an optional column is an
  \<open>option\<close> (\<open>None\<close> stands for both \<^verbatim>\<open>undefined\<close> and \<^verbatim>\<open>null\<close>). The offset
  \<^verbatim>\<open>(page - 1) * pageSize\<close> is computed on \<open>int\<close>, which is what the JavaScript number
  computes as long as the product stays below \<open>2\<^sup>5\<^sup>3\<close>.
  The two effects a handler reads from its environment, \<^verbatim>\<open>new Date()\<close> and
  \<^verbatim>\<open>crypto.randomUUID()\<close>, are the fields of a \<open>Runtime\<close> record given to the handler.
\<close>

subsection \<open>Tables (src/db/tables.ts)\<close>

type_synonym date = int

record LanguageProfile =
  lp_id :: string
  lp_userId :: string
  lp_targetLanguage :: string
  lp_nativeLanguage :: "string option"
  lp_proficiencyLevel :: "string option"
  lp_goals :: "string option"
  lp_isActive :: bool
  lp_createdAt :: date
  lp_updatedAt :: date

record VocabularyItem =
  vi_id :: string
  vi_languageProfileId :: string
  vi_userId :: string
  vi_term :: string
  vi_translation :: "string option"
  vi_partOfSpeech :: "string option"
  vi_exampleSentence :: "string option"
  vi_exampleTranslation :: "string option"
  vi_difficulty :: "string option"
  vi_tags :: "string option"
  vi_lastReviewedAt :: "date option"
  vi_nextReviewAt :: "date option"
  vi_successStreak :: "int option"
  vi_totalReviews :: "int option"
  vi_createdAt :: date
  vi_updatedAt :: date

record PracticeSession =
  ps_id :: string
  ps_languageProfileId :: string
  ps_userId :: string
  ps_mode :: "string option"
  ps_startedAt :: date
  ps_endedAt :: "date option"
  ps_totalQuestions :: "int option"
  ps_correctAnswers :: "int option"
  ps_notes :: "string option"
  ps_createdAt :: date

text \<open>The database: each table is the list of its rows, in insertion order.\<close>

record database =
  LanguageProfiles :: "LanguageProfile list"
  VocabularyItems :: "VocabularyItem list"
  PracticeSessions :: "PracticeSession list"

subsection \<open>Errors, the call context and the environment\<close>

datatype error =
    UNAUTHORIZED
  | NOT_FOUND string
  | BAD_REQUEST
  | CONSTRAINT_PRIMARYKEY

record User =
  user_id :: string

record Locals =
  user :: "User option"

record ActionAPIContext =
  locals :: "Locals option"

record Runtime =
  new_Date :: date
  randomUUID :: string

definition requireUser :: "ActionAPIContext \<Rightarrow> error + User" where
  "requireUser context =
     (case locals context of
        None \<Rightarrow> Inl UNAUTHORIZED
      | Some l \<Rightarrow>
          (case user l of
             None \<Rightarrow> Inl UNAUTHORIZED
           | Some u \<Rightarrow> Inr u))"

subsection \<open>The persistence layer\<close>

text \<open>
  Modelled from the spec: the query builder imported from \<^verbatim>\<open>astro:db\<close> (\<^verbatim>\<open>db.select\<close>,
  \<^verbatim>\<open>db.insert\<close>, \<^verbatim>\<open>db.update\<close>, \<^verbatim>\<open>db.delete\<close>, \<^verbatim>\<open>limit\<close>, \<^verbatim>\<open>offset\<close>) is not part
  of the repository. A select returns the rows that satisfy the filter in table order; an
  update assigns every key of the object given to \<^verbatim>\<open>set\<close> on every row that satisfies the
  filter, a key whose value is \<^verbatim>\<open>undefined\<close> clearing the column (the spec: "fields omitted
  in the input become undefined/cleared on the stored row"); a delete removes the rows that
  satisfy the filter and reports how many there were; an insert appends the row and fails when
  the primary key (\<^verbatim>\<open>primaryKey: true\<close> in the table definition) is already present.
\<close>

definition select_where :: "('r \<Rightarrow> bool) \<Rightarrow> 'r list \<Rightarrow> 'r list" where
  "select_where cond tbl = filter cond tbl"

definition update_set_where :: "('r \<Rightarrow> 'r) \<Rightarrow> ('r \<Rightarrow> bool) \<Rightarrow> 'r list \<Rightarrow> 'r list" where
  "update_set_where assign cond tbl = map (\<lambda>r. if cond r then assign r else r) tbl"

definition delete_where :: "('r \<Rightarrow> bool) \<Rightarrow> 'r list \<Rightarrow> 'r list \<times> nat" where
  "delete_where cond tbl = (filter (\<lambda>r. \<not> cond r) tbl, length (filter cond tbl))"

definition insert_values :: "('r \<Rightarrow> string) \<Rightarrow> 'r \<Rightarrow> 'r list \<Rightarrow> error + 'r list" where
  "insert_values pk row tbl =
     (if pk row \<in> set (map pk tbl) then Inl CONSTRAINT_PRIMARYKEY else Inr (tbl @ [row]))"

definition limit_offset :: "int \<Rightarrow> int \<Rightarrow> 'r list \<Rightarrow> 'r list" where
  "limit_offset lim off rows = take (nat lim) (drop (nat off) rows)"

text \<open>\<^verbatim>\<open>const [x] = await ...\<close>: the first row of the result, or \<^verbatim>\<open>undefined\<close>.\<close>

definition first_row :: "'r list \<Rightarrow> 'r option" where
  "first_row rows = (case rows of [] \<Rightarrow> None | r # _ \<Rightarrow> Some r)"

text \<open>\<^verbatim>\<open>a ?? b\<close>, for a required and for an optional column.\<close>

definition nullish :: "'a option \<Rightarrow> 'a \<Rightarrow> 'a" where
  "nullish a b = (case a of None \<Rightarrow> b | Some v \<Rightarrow> v)"

definition nullish_opt :: "'a option \<Rightarrow> 'a option \<Rightarrow> 'a option" where
  "nullish_opt a b = (case a of None \<Rightarrow> b | Some v \<Rightarrow> Some v)"

text \<open>
  \<^verbatim>\<open>defineAction({ input, handler })\<close>: the input is parsed by the schema first; the handler
  runs only on an input the schema accepts.
\<close>

definition defineAction ::
  "('i \<Rightarrow> 'v option) \<Rightarrow> ('v \<Rightarrow> ActionAPIContext \<Rightarrow> database \<Rightarrow> (error + 'o) \<times> database) \<Rightarrow>
   'i \<Rightarrow> ActionAPIContext \<Rightarrow> database \<Rightarrow> (error + 'o) \<times> database" where
  "defineAction schema handler raw context db =
     (case schema raw of
        None \<Rightarrow> (Inl BAD_REQUEST, db)
      | Some input \<Rightarrow> handler input context db)"

subsection \<open>Action inputs (the \<^verbatim>\<open>z.object\<close> schemas)\<close>

record CreateLanguageProfileInput =
  clp_targetLanguage :: string
  clp_nativeLanguage :: "string option"
  clp_proficiencyLevel :: "string option"
  clp_goals :: "string option"

record UpdateLanguageProfileInput =
  ulp_id :: string
  ulp_targetLanguage :: "string option"
  ulp_nativeLanguage :: "string option"
  ulp_proficiencyLevel :: "string option"
  ulp_goals :: "string option"
  ulp_isActive :: "bool option"

record ListMyLanguageProfilesInput =
  lmp_includeInactive :: "bool option"

record UpsertVocabularyItemInput =
  uvi_id :: "string option"
  uvi_languageProfileId :: string
  uvi_term :: string
  uvi_translation :: "string option"
  uvi_partOfSpeech :: "string option"
  uvi_exampleSentence :: "string option"
  uvi_exampleTranslation :: "string option"
  uvi_difficulty :: "string option"
  uvi_tags :: "string option"
  uvi_lastReviewedAt :: "date option"
  uvi_nextReviewAt :: "date option"
  uvi_successStreak :: "int option"
  uvi_totalReviews :: "int option"

record DeleteVocabularyItemInput =
  dvi_id :: string

text \<open>The input of both paginated lists, before and after the schema's defaults.\<close>

record ListPageInput =
  lpi_languageProfileId :: string
  lpi_page :: "int option"
  lpi_pageSize :: "int option"

record ListPageParsed =
  lpp_languageProfileId :: string
  lpp_page :: int
  lpp_pageSize :: int

record StartPracticeSessionInput =
  sps_languageProfileId :: string
  sps_mode :: "string option"
  sps_totalQuestions :: "int option"
  sps_notes :: "string option"

record CompletePracticeSessionInput =
  cps_id :: string
  cps_totalQuestions :: "int option"
  cps_correctAnswers :: "int option"
  cps_notes :: "string option"
  cps_endedAt :: "date option"

text \<open>The payloads of the list actions.\<close>

record 'r Listing =
  items :: "'r list"
  total :: nat

record 'r Page = "'r Listing" +
  page :: int
  pageSize :: int

subsection \<open>Schemas\<close>

text \<open>\<^verbatim>\<open>z.string().min(1)\<close>\<close>

definition string_min1 :: "string \<Rightarrow> bool" where
  "string_min1 s = (1 \<le> length s)"

definition createLanguageProfile_input ::
  "CreateLanguageProfileInput \<Rightarrow> CreateLanguageProfileInput option" where
  "createLanguageProfile_input raw =
     (if string_min1 (clp_targetLanguage raw) then Some raw else None)"

definition updateLanguageProfile_input ::
  "UpdateLanguageProfileInput \<Rightarrow> UpdateLanguageProfileInput option" where
  "updateLanguageProfile_input raw = (if string_min1 (ulp_id raw) then Some raw else None)"

text \<open>\<^verbatim>\<open>includeInactive: z.boolean().default(false)\<close>\<close>

definition listMyLanguageProfiles_input :: "ListMyLanguageProfilesInput \<Rightarrow> bool option" where
  "listMyLanguageProfiles_input raw = Some (nullish (lmp_includeInactive raw) False)"

definition upsertVocabularyItem_input ::
  "UpsertVocabularyItemInput \<Rightarrow> UpsertVocabularyItemInput option" where
  "upsertVocabularyItem_input raw =
     (if string_min1 (uvi_languageProfileId raw) \<and> string_min1 (uvi_term raw)
      then Some raw else None)"

definition deleteVocabularyItem_input ::
  "DeleteVocabularyItemInput \<Rightarrow> DeleteVocabularyItemInput option" where
  "deleteVocabularyItem_input raw = (if string_min1 (dvi_id raw) then Some raw else None)"

text \<open>
  \<^verbatim>\<open>page: z.number().int().positive().default(1)\<close>,
  \<^verbatim>\<open>pageSize: z.number().int().positive().max(100).default(20)\<close>
\<close>

definition listPage_input :: "ListPageInput \<Rightarrow> ListPageParsed option" where
  "listPage_input raw =
     (let p = nullish (lpi_page raw) 1; n = nullish (lpi_pageSize raw) 20
      in if string_min1 (lpi_languageProfileId raw) \<and> 0 < p \<and> 0 < n \<and> n \<le> 100
         then Some \<lparr>lpp_languageProfileId = lpi_languageProfileId raw,
                    lpp_page = p, lpp_pageSize = n\<rparr>
         else None)"

definition startPracticeSession_input ::
  "StartPracticeSessionInput \<Rightarrow> StartPracticeSessionInput option" where
  "startPracticeSession_input raw =
     (if string_min1 (sps_languageProfileId raw) then Some raw else None)"

definition completePracticeSession_input ::
  "CompletePracticeSessionInput \<Rightarrow> CompletePracticeSessionInput option" where
  "completePracticeSession_input raw = (if string_min1 (cps_id raw) then Some raw else None)"

subsection \<open>Profile handlers\<close>

definition createLanguageProfile_handler ::
  "Runtime \<Rightarrow> CreateLanguageProfileInput \<Rightarrow> ActionAPIContext \<Rightarrow> database \<Rightarrow>
   (error + LanguageProfile) \<times> database" where
  "createLanguageProfile_handler rt input context db =
     (case requireUser context of
        Inl e \<Rightarrow> (Inl e, db)
      | Inr u \<Rightarrow>
          (let now = new_Date rt;
               ident = randomUUID rt;
               row = \<lparr>lp_id = ident,
                      lp_userId = user_id u,
                      lp_targetLanguage = clp_targetLanguage input,
                      lp_nativeLanguage = clp_nativeLanguage input,
                      lp_proficiencyLevel = clp_proficiencyLevel input,
                      lp_goals = clp_goals input,
                      lp_isActive = True,
                      lp_createdAt = now,
                      lp_updatedAt = now\<rparr>
           in case insert_values lp_id row (LanguageProfiles db) of
                Inl e \<Rightarrow> (Inl e, db)
              | Inr tbl \<Rightarrow> (Inr row, db\<lparr>LanguageProfiles := tbl\<rparr>)))"

definition updateLanguageProfile_handler ::
  "Runtime \<Rightarrow> UpdateLanguageProfileInput \<Rightarrow> ActionAPIContext \<Rightarrow> database \<Rightarrow>
   (error + LanguageProfile) \<times> database" where
  "updateLanguageProfile_handler rt input context db =
     (case requireUser context of
        Inl e \<Rightarrow> (Inl e, db)
      | Inr u \<Rightarrow>
          (case first_row (select_where
                  (\<lambda>r. lp_id r = ulp_id input \<and> lp_userId r = user_id u)
                  (LanguageProfiles db)) of
             None \<Rightarrow> (Inl (NOT_FOUND ''Language profile not found.''), db)
           | Some existing \<Rightarrow>
               (let updatedAt = new_Date rt;
                    assign = (\<lambda>r. r\<lparr>
                      lp_targetLanguage :=
                        nullish (ulp_targetLanguage input) (lp_targetLanguage existing),
                      lp_nativeLanguage :=
                        nullish_opt (ulp_nativeLanguage input) (lp_nativeLanguage existing),
                      lp_proficiencyLevel :=
                        nullish_opt (ulp_proficiencyLevel input) (lp_proficiencyLevel existing),
                      lp_goals := nullish_opt (ulp_goals input) (lp_goals existing),
                      lp_isActive := nullish (ulp_isActive input) (lp_isActive existing),
                      lp_updatedAt := updatedAt\<rparr>)
                in (Inr (assign (existing\<lparr>lp_id := ulp_id input\<rparr>)),
                    db\<lparr>LanguageProfiles :=
                         update_set_where assign
                           (\<lambda>r. lp_id r = ulp_id input \<and> lp_userId r = user_id u)
                           (LanguageProfiles db)\<rparr>))))"

definition listMyLanguageProfiles_handler ::
  "bool \<Rightarrow> ActionAPIContext \<Rightarrow> database \<Rightarrow>
   (error + LanguageProfile Listing) \<times> database" where
  "listMyLanguageProfiles_handler includeInactive context db =
     (case requireUser context of
        Inl e \<Rightarrow> (Inl e, db)
      | Inr u \<Rightarrow>
          (let profiles = select_where
                 (if includeInactive
                  then (\<lambda>r. lp_userId r = user_id u)
                  else (\<lambda>r. lp_userId r = user_id u \<and> lp_isActive r = True))
                 (LanguageProfiles db)
           in (Inr \<lparr>items = profiles, total = length profiles\<rparr>, db)))"

subsection \<open>Vocabulary handlers\<close>

text \<open>
  \<^verbatim>\<open>if (input.id)\<close> tests the truthiness of an optional string: \<^verbatim>\<open>undefined\<close> and the
  empty string both take the insert path.
\<close>

definition truthy :: "string option \<Rightarrow> string option" where
  "truthy s = (case s of None \<Rightarrow> None | Some v \<Rightarrow> (if v = [] then None else Some v))"

text \<open>The object given to \<^verbatim>\<open>set\<close> by the update path of the upsert.\<close>

definition upsert_set :: "UpsertVocabularyItemInput \<Rightarrow> date \<Rightarrow> VocabularyItem \<Rightarrow> VocabularyItem" where
  "upsert_set input now r = r\<lparr>
     vi_languageProfileId := uvi_languageProfileId input,
     vi_term := uvi_term input,
     vi_translation := uvi_translation input,
     vi_partOfSpeech := uvi_partOfSpeech input,
     vi_exampleSentence := uvi_exampleSentence input,
     vi_exampleTranslation := uvi_exampleTranslation input,
     vi_difficulty := uvi_difficulty input,
     vi_tags := uvi_tags input,
     vi_lastReviewedAt := uvi_lastReviewedAt input,
     vi_nextReviewAt := uvi_nextReviewAt input,
     vi_successStreak := uvi_successStreak input,
     vi_totalReviews := uvi_totalReviews input,
     vi_updatedAt := now\<rparr>"

text \<open>
  The item returned by the update path:
  \<^verbatim>\<open>{ ...existing, ...input, updatedAt: now, userId: user.id }\<close>. The spread of the input
  copies the keys the parsed input has, so an omitted optional key leaves the value of
  \<^verbatim>\<open>existing\<close> in place.
\<close>

definition upsert_returned ::
  "VocabularyItem \<Rightarrow> UpsertVocabularyItemInput \<Rightarrow> date \<Rightarrow> string \<Rightarrow> VocabularyItem" where
  "upsert_returned existing input now uid = existing\<lparr>
     vi_id := nullish (uvi_id input) (vi_id existing),
     vi_languageProfileId := uvi_languageProfileId input,
     vi_term := uvi_term input,
     vi_translation := nullish_opt (uvi_translation input) (vi_translation existing),
     vi_partOfSpeech := nullish_opt (uvi_partOfSpeech input) (vi_partOfSpeech existing),
     vi_exampleSentence := nullish_opt (uvi_exampleSentence input) (vi_exampleSentence existing),
     vi_exampleTranslation :=
       nullish_opt (uvi_exampleTranslation input) (vi_exampleTranslation existing),
     vi_difficulty := nullish_opt (uvi_difficulty input) (vi_difficulty existing),
     vi_tags := nullish_opt (uvi_tags input) (vi_tags existing),
     vi_lastReviewedAt := nullish_opt (uvi_lastReviewedAt input) (vi_lastReviewedAt existing),
     vi_nextReviewAt := nullish_opt (uvi_nextReviewAt input) (vi_nextReviewAt existing),
     vi_successStreak := nullish_opt (uvi_successStreak input) (vi_successStreak existing),
     vi_totalReviews := nullish_opt (uvi_totalReviews input) (vi_totalReviews existing),
     vi_updatedAt := now,
     vi_userId := uid\<rparr>"

definition upsertVocabularyItem_handler ::
  "Runtime \<Rightarrow> UpsertVocabularyItemInput \<Rightarrow> ActionAPIContext \<Rightarrow> database \<Rightarrow>
   (error + VocabularyItem) \<times> database" where
  "upsertVocabularyItem_handler rt input context db =
     (case requireUser context of
        Inl e \<Rightarrow> (Inl e, db)
      | Inr u \<Rightarrow>
          (case first_row (select_where
                  (\<lambda>r. lp_id r = uvi_languageProfileId input \<and> lp_userId r = user_id u)
                  (LanguageProfiles db)) of
             None \<Rightarrow> (Inl (NOT_FOUND ''Language profile not found.''), db)
           | Some profile \<Rightarrow>
               (let now = new_Date rt
                in case truthy (uvi_id input) of
                     Some iid \<Rightarrow>
                       (case first_row (select_where
                               (\<lambda>r. vi_id r = iid \<and> vi_userId r = user_id u)
                               (VocabularyItems db)) of
                          None \<Rightarrow> (Inl (NOT_FOUND ''Vocabulary item not found.''), db)
                        | Some existing \<Rightarrow>
                            (Inr (upsert_returned existing input now (user_id u)),
                             db\<lparr>VocabularyItems :=
                                  update_set_where (upsert_set input now)
                                    (\<lambda>r. vi_id r = iid \<and> vi_userId r = user_id u)
                                    (VocabularyItems db)\<rparr>))
                   | None \<Rightarrow>
                       (let ident = randomUUID rt;
                            row = \<lparr>vi_id = ident,
                                   vi_languageProfileId = uvi_languageProfileId input,
                                   vi_userId = user_id u,
                                   vi_term = uvi_term input,
                                   vi_translation = uvi_translation input,
                                   vi_partOfSpeech = uvi_partOfSpeech input,
                                   vi_exampleSentence = uvi_exampleSentence input,
                                   vi_exampleTranslation = uvi_exampleTranslation input,
                                   vi_difficulty = uvi_difficulty input,
                                   vi_tags = uvi_tags input,
                                   vi_lastReviewedAt = uvi_lastReviewedAt input,
                                   vi_nextReviewAt = uvi_nextReviewAt input,
                                   vi_successStreak = uvi_successStreak input,
                                   vi_totalReviews = uvi_totalReviews input,
                                   vi_createdAt = now,
                                   vi_updatedAt = now\<rparr>
                        in case insert_values vi_id row (VocabularyItems db) of
                             Inl e \<Rightarrow> (Inl e, db)
                           | Inr tbl \<Rightarrow> (Inr row, db\<lparr>VocabularyItems := tbl\<rparr>)))))"

text \<open>
  The delete runs before the check of \<^verbatim>\<open>rowsAffected\<close>: the database returned with the
  error is the one the delete left.
\<close>

definition deleteVocabularyItem_handler ::
  "DeleteVocabularyItemInput \<Rightarrow> ActionAPIContext \<Rightarrow> database \<Rightarrow> (error + unit) \<times> database" where
  "deleteVocabularyItem_handler input context db =
     (case requireUser context of
        Inl e \<Rightarrow> (Inl e, db)
      | Inr u \<Rightarrow>
          (let (tbl, rowsAffected) = delete_where
                 (\<lambda>r. vi_id r = dvi_id input \<and> vi_userId r = user_id u)
                 (VocabularyItems db);
               db' = db\<lparr>VocabularyItems := tbl\<rparr>
           in if rowsAffected = 0
              then (Inl (NOT_FOUND ''Vocabulary item not found.''), db')
              else (Inr (), db')))"

definition listVocabularyItems_handler ::
  "ListPageParsed \<Rightarrow> ActionAPIContext \<Rightarrow> database \<Rightarrow>
   (error + VocabularyItem Page) \<times> database" where
  "listVocabularyItems_handler input context db =
     (case requireUser context of
        Inl e \<Rightarrow> (Inl e, db)
      | Inr u \<Rightarrow>
          (let offset = (lpp_page input - 1) * lpp_pageSize input;
               rows = limit_offset (lpp_pageSize input) offset
                        (select_where
                           (\<lambda>r. vi_languageProfileId r = lpp_languageProfileId input \<and>
                                vi_userId r = user_id u)
                           (VocabularyItems db))
           in (Inr \<lparr>items = rows, total = length rows,
                    page = lpp_page input, pageSize = lpp_pageSize input\<rparr>, db)))"

subsection \<open>Session handlers\<close>

definition startPracticeSession_handler ::
  "Runtime \<Rightarrow> StartPracticeSessionInput \<Rightarrow> ActionAPIContext \<Rightarrow> database \<Rightarrow>
   (error + PracticeSession) \<times> database" where
  "startPracticeSession_handler rt input context db =
     (case requireUser context of
        Inl e \<Rightarrow> (Inl e, db)
      | Inr u \<Rightarrow>
          (case first_row (select_where
                  (\<lambda>r. lp_id r = sps_languageProfileId input \<and> lp_userId r = user_id u)
                  (LanguageProfiles db)) of
             None \<Rightarrow> (Inl (NOT_FOUND ''Language profile not found.''), db)
           | Some profile \<Rightarrow>
               (let ident = randomUUID rt;
                    startedAt = new_Date rt;
                    row = \<lparr>ps_id = ident,
                           ps_languageProfileId = sps_languageProfileId input,
                           ps_userId = user_id u,
                           ps_mode = sps_mode input,
                           ps_startedAt = startedAt,
                           ps_endedAt = None,
                           ps_totalQuestions = sps_totalQuestions input,
                           ps_correctAnswers = None,
                           ps_notes = sps_notes input,
                           ps_createdAt = startedAt\<rparr>
                in case insert_values ps_id row (PracticeSessions db) of
                     Inl e \<Rightarrow> (Inl e, db)
                   | Inr tbl \<Rightarrow> (Inr row, db\<lparr>PracticeSessions := tbl\<rparr>))))"

text \<open>The object given to \<^verbatim>\<open>set\<close> by the completion, and spread over the returned session.\<close>

definition complete_set ::
  "CompletePracticeSessionInput \<Rightarrow> PracticeSession \<Rightarrow> date \<Rightarrow> PracticeSession \<Rightarrow> PracticeSession" where
  "complete_set input session endedAt r = r\<lparr>
     ps_totalQuestions := nullish_opt (cps_totalQuestions input) (ps_totalQuestions session),
     ps_correctAnswers := nullish_opt (cps_correctAnswers input) (ps_correctAnswers session),
     ps_notes := nullish_opt (cps_notes input) (ps_notes session),
     ps_endedAt := Some endedAt\<rparr>"

definition completePracticeSession_handler ::
  "Runtime \<Rightarrow> CompletePracticeSessionInput \<Rightarrow> ActionAPIContext \<Rightarrow> database \<Rightarrow>
   (error + PracticeSession) \<times> database" where
  "completePracticeSession_handler rt input context db =
     (case requireUser context of
        Inl e \<Rightarrow> (Inl e, db)
      | Inr u \<Rightarrow>
          (case first_row (select_where
                  (\<lambda>r. ps_id r = cps_id input \<and> ps_userId r = user_id u)
                  (PracticeSessions db)) of
             None \<Rightarrow> (Inl (NOT_FOUND ''Practice session not found.''), db)
           | Some session \<Rightarrow>
               (let endedAt = nullish (cps_endedAt input) (new_Date rt)
                in (Inr (complete_set input session endedAt session),
                    db\<lparr>PracticeSessions :=
                         update_set_where (complete_set input session endedAt)
                           (\<lambda>r. ps_id r = cps_id input \<and> ps_userId r = user_id u)
                           (PracticeSessions db)\<rparr>))))"

definition listPracticeSessions_handler ::
  "ListPageParsed \<Rightarrow> ActionAPIContext \<Rightarrow> database \<Rightarrow>
   (error + PracticeSession Page) \<times> database" where
  "listPracticeSessions_handler input context db =
     (case requireUser context of
        Inl e \<Rightarrow> (Inl e, db)
      | Inr u \<Rightarrow>
          (let offset = (lpp_page input - 1) * lpp_pageSize input;
               sessions = limit_offset (lpp_pageSize input) offset
                        (select_where
                           (\<lambda>r. ps_languageProfileId r = lpp_languageProfileId input \<and>
                                ps_userId r = user_id u)
                           (PracticeSessions db))
           in (Inr \<lparr>items = sessions, total = length sessions,
                    page = lpp_page input, pageSize = lpp_pageSize input\<rparr>, db)))"

subsection \<open>The exported actions\<close>

definition createLanguageProfile where
  "createLanguageProfile rt =
     defineAction createLanguageProfile_input (createLanguageProfile_handler rt)"

definition updateLanguageProfile where
  "updateLanguageProfile rt =
     defineAction updateLanguageProfile_input (updateLanguageProfile_handler rt)"

definition listMyLanguageProfiles where
  "listMyLanguageProfiles =
     defineAction listMyLanguageProfiles_input listMyLanguageProfiles_handler"

definition upsertVocabularyItem where
  "upsertVocabularyItem rt =
     defineAction upsertVocabularyItem_input (upsertVocabularyItem_handler rt)"

definition deleteVocabularyItem where
  "deleteVocabularyItem =
     defineAction deleteVocabularyItem_input deleteVocabularyItem_handler"

definition listVocabularyItems where
  "listVocabularyItems = defineAction listPage_input listVocabularyItems_handler"

definition startPracticeSession where
  "startPracticeSession rt =
     defineAction startPracticeSession_input (startPracticeSession_handler rt)"

definition completePracticeSession where
  "completePracticeSession rt =
     defineAction completePracticeSession_input (completePracticeSession_handler rt)"

definition listPracticeSessions where
  "listPracticeSessions = defineAction listPage_input listPracticeSessions_handler"

text \<open>
  The exported object \<^verbatim>\<open>server\<close> maps the name of an action to its handler; a call names
  the action and carries its input, and the payload of the success envelope depends on the
  action.
\<close>

datatype Call =
    Call_createLanguageProfile CreateLanguageProfileInput
  | Call_updateLanguageProfile UpdateLanguageProfileInput
  | Call_listMyLanguageProfiles ListMyLanguageProfilesInput
  | Call_upsertVocabularyItem UpsertVocabularyItemInput
  | Call_deleteVocabularyItem DeleteVocabularyItemInput
  | Call_listVocabularyItems ListPageInput
  | Call_startPracticeSession StartPracticeSessionInput
  | Call_completePracticeSession CompletePracticeSessionInput
  | Call_listPracticeSessions ListPageInput

datatype Data =
    Data_profile LanguageProfile
  | Data_profiles "LanguageProfile Listing"
  | Data_item VocabularyItem
  | Data_none
  | Data_items "VocabularyItem Page"
  | Data_session PracticeSession
  | Data_sessions "PracticeSession Page"

definition envelope :: "('o \<Rightarrow> Data) \<Rightarrow> (error + 'o) \<times> database \<Rightarrow> (error + Data) \<times> database" where
  "envelope wrap r = (case fst r of Inl e \<Rightarrow> Inl e | Inr d \<Rightarrow> Inr (wrap d), snd r)"

definition server ::
  "Runtime \<Rightarrow> Call \<Rightarrow> ActionAPIContext \<Rightarrow> database \<Rightarrow> (error + Data) \<times> database" where
  "server rt call context db =
     (case call of
        Call_createLanguageProfile i \<Rightarrow>
          envelope Data_profile (createLanguageProfile rt i context db)
      | Call_updateLanguageProfile i \<Rightarrow>
          envelope Data_profile (updateLanguageProfile rt i context db)
      | Call_listMyLanguageProfiles i \<Rightarrow>
          envelope Data_profiles (listMyLanguageProfiles i context db)
      | Call_upsertVocabularyItem i \<Rightarrow>
          envelope Data_item (upsertVocabularyItem rt i context db)
      | Call_deleteVocabularyItem i \<Rightarrow>
          envelope (\<lambda>_. Data_none) (deleteVocabularyItem i context db)
      | Call_listVocabularyItems i \<Rightarrow>
          envelope Data_items (listVocabularyItems i context db)
      | Call_startPracticeSession i \<Rightarrow>
          envelope Data_session (startPracticeSession rt i context db)
      | Call_completePracticeSession i \<Rightarrow>
          envelope Data_session (completePracticeSession rt i context db)
      | Call_listPracticeSessions i \<Rightarrow>
          envelope Data_sessions (listPracticeSessions i context db))"

subsection \<open>Vocabulary of the properties\<close>

text \<open>The rows of a database that carry a given \<^verbatim>\<open>userId\<close>.\<close>

definition owned_by :: "string \<Rightarrow> database \<Rightarrow> database" where
  "owned_by uid db =
     \<lparr>LanguageProfiles = filter (\<lambda>r. lp_userId r = uid) (LanguageProfiles db),
      VocabularyItems = filter (\<lambda>r. vi_userId r = uid) (VocabularyItems db),
      PracticeSessions = filter (\<lambda>r. ps_userId r = uid) (PracticeSessions db)\<rparr>"

text \<open>The rows a paginated list selects before \<^verbatim>\<open>limit\<close> and \<^verbatim>\<open>offset\<close>.\<close>

definition matching_items :: "string \<Rightarrow> string \<Rightarrow> database \<Rightarrow> VocabularyItem list" where
  "matching_items pid uid db =
     filter (\<lambda>r. vi_languageProfileId r = pid \<and> vi_userId r = uid) (VocabularyItems db)"

definition matching_sessions :: "string \<Rightarrow> string \<Rightarrow> database \<Rightarrow> PracticeSession list" where
  "matching_sessions pid uid db =
     filter (\<lambda>r. ps_languageProfileId r = pid \<and> ps_userId r = uid) (PracticeSessions db)"


text \<open>The primary keys of the three tables are unique.\<close>

definition primary_keys :: "database \<Rightarrow> bool" where
  "primary_keys db \<longleftrightarrow>
     distinct (map lp_id (LanguageProfiles db)) \<and>
     distinct (map vi_id (VocabularyItems db)) \<and>
     distinct (map ps_id (PracticeSessions db))"

text \<open>The identifier drawn by \<^verbatim>\<open>crypto.randomUUID()\<close> is not in use as a key.\<close>

definition fresh_uuid :: "Runtime \<Rightarrow> database \<Rightarrow> bool" where
  "fresh_uuid rt db \<longleftrightarrow>
     randomUUID rt \<notin> set (map lp_id (LanguageProfiles db)) \<and>
     randomUUID rt \<notin> set (map vi_id (VocabularyItems db)) \<and>
     randomUUID rt \<notin> set (map ps_id (PracticeSessions db))"


text \<open>
  Every vocabulary item and every session references a profile that carries the same
  \<^verbatim>\<open>userId\<close> (the invariant the spec states for both tables; the handlers establish it at
  write time).
\<close>

definition references_owned :: "database \<Rightarrow> bool" where
  "references_owned db \<longleftrightarrow>
     list_all (\<lambda>r. list_ex (\<lambda>p. lp_id p = vi_languageProfileId r \<and> lp_userId p = vi_userId r)
                     (LanguageProfiles db)) (VocabularyItems db) \<and>
     list_all (\<lambda>r. list_ex (\<lambda>p. lp_id p = ps_languageProfileId r \<and> lp_userId p = ps_userId r)
                     (LanguageProfiles db)) (PracticeSessions db)"



definition is_NOT_FOUND :: "error + 'o \<Rightarrow> bool" where
  "is_NOT_FOUND r = (case r of Inl (NOT_FOUND m) \<Rightarrow> True | _ \<Rightarrow> False)"

subsection \<open>Sample data\<close>

definition alice :: User where
  "alice = \<lparr>user_id = ''alice''\<rparr>"

definition bob :: User where
  "bob = \<lparr>user_id = ''bob''\<rparr>"

definition signed_in :: "User \<Rightarrow> ActionAPIContext" where
  "signed_in u = \<lparr>locals = Some \<lparr>user = Some u\<rparr>\<rparr>"

definition sample_profile :: "string \<Rightarrow> string \<Rightarrow> LanguageProfile" where
  "sample_profile ident uid =
     \<lparr>lp_id = ident, lp_userId = uid, lp_targetLanguage = ''es'',
      lp_nativeLanguage = Some ''en'', lp_proficiencyLevel = None, lp_goals = Some ''travel'',
      lp_isActive = True, lp_createdAt = 10, lp_updatedAt = 10\<rparr>"

definition sample_item :: "string \<Rightarrow> string \<Rightarrow> string \<Rightarrow> string \<Rightarrow> VocabularyItem" where
  "sample_item ident pid uid term =
     \<lparr>vi_id = ident, vi_languageProfileId = pid, vi_userId = uid, vi_term = term,
      vi_translation = Some ''hello'', vi_partOfSpeech = None, vi_exampleSentence = None,
      vi_exampleTranslation = None, vi_difficulty = Some ''easy'', vi_tags = None,
      vi_lastReviewedAt = None, vi_nextReviewAt = None, vi_successStreak = Some 2,
      vi_totalReviews = Some 5, vi_createdAt = 20, vi_updatedAt = 20\<rparr>"

definition sample_session :: "string \<Rightarrow> string \<Rightarrow> string \<Rightarrow> PracticeSession" where
  "sample_session ident pid uid =
     \<lparr>ps_id = ident, ps_languageProfileId = pid, ps_userId = uid, ps_mode = Some ''quiz'',
      ps_startedAt = 30, ps_endedAt = None, ps_totalQuestions = Some 10,
      ps_correctAnswers = None, ps_notes = Some ''first run'', ps_createdAt = 30\<rparr>"

definition sample_db :: database where
  "sample_db =
     \<lparr>LanguageProfiles = [sample_profile ''p1'' ''alice'', sample_profile ''p2'' ''bob''],
      VocabularyItems =
        [sample_item ''v1'' ''p1'' ''alice'' ''hola'',
         sample_item ''v2'' ''p2'' ''bob'' ''gato'',
         sample_item ''v3'' ''p1'' ''alice'' ''perro'',
         sample_item ''v4'' ''p1'' ''alice'' ''casa''],
      PracticeSessions =
        [sample_session ''s1'' ''p1'' ''alice'', sample_session ''s2'' ''p2'' ''bob'']\<rparr>"

text \<open>The same rows of alice, other rows of bob.\<close>

definition sample_db_other :: database where
  "sample_db_other =
     \<lparr>LanguageProfiles = [sample_profile ''p1'' ''alice''],
      VocabularyItems =
        [sample_item ''v1'' ''p1'' ''alice'' ''hola'',
         sample_item ''v3'' ''p1'' ''alice'' ''perro'',
         sample_item ''v7'' ''p9'' ''bob'' ''luna'',
         sample_item ''v4'' ''p1'' ''alice'' ''casa''],
      PracticeSessions = [sample_session ''s1'' ''p1'' ''alice'']\<rparr>"

definition sample_rt :: Runtime where
  "sample_rt = \<lparr>new_Date = 1000, randomUUID = ''uuid-1''\<rparr>"

definition sample_upsert :: "string option \<Rightarrow> UpsertVocabularyItemInput" where
  "sample_upsert ident =
     \<lparr>uvi_id = ident, uvi_languageProfileId = ''p1'', uvi_term = ''adios'',
      uvi_translation = Some ''goodbye'', uvi_partOfSpeech = None, uvi_exampleSentence = None,
      uvi_exampleTranslation = None, uvi_difficulty = None, uvi_tags = None,
      uvi_lastReviewedAt = None, uvi_nextReviewAt = None, uvi_successStreak = None,
      uvi_totalReviews = None\<rparr>"

definition sample_list :: "int \<Rightarrow> int \<Rightarrow> ListPageInput" where
  "sample_list p n =
     \<lparr>lpi_languageProfileId = ''p1'', lpi_page = Some p, lpi_pageSize = Some n\<rparr>"

definition sample_update :: UpdateLanguageProfileInput where
  "sample_update =
     \<lparr>ulp_id = ''p1'', ulp_targetLanguage = Some ''fr'', ulp_nativeLanguage = None,
      ulp_proficiencyLevel = None, ulp_goals = None, ulp_isActive = Some False\<rparr>"

definition sample_start :: StartPracticeSessionInput where
  "sample_start =
     \<lparr>sps_languageProfileId = ''p1'', sps_mode = Some ''quiz'', sps_totalQuestions = Some 10,
      sps_notes = None\<rparr>"

definition sample_complete :: "string \<Rightarrow> CompletePracticeSessionInput" where
  "sample_complete ident =
     \<lparr>cps_id = ident, cps_totalQuestions = None, cps_correctAnswers = Some 8, cps_notes = None,
      cps_endedAt = None\<rparr>"

text \<open>
  The row an upsert of \<open>sample_upsert\<close> inserts, the row it leaves stored under the id
  \<^verbatim>\<open>v1\<close>, and the item it returns for \<^verbatim>\<open>v1\<close>.
\<close>

definition sample_inserted :: VocabularyItem where
  "sample_inserted =
     \<lparr>vi_id = ''uuid-1'', vi_languageProfileId = ''p1'', vi_userId = ''alice'',
      vi_term = ''adios'', vi_translation = Some ''goodbye'', vi_partOfSpeech = None,
      vi_exampleSentence = None, vi_exampleTranslation = None, vi_difficulty = None,
      vi_tags = None, vi_lastReviewedAt = None, vi_nextReviewAt = None,
      vi_successStreak = None, vi_totalReviews = None, vi_createdAt = 1000,
      vi_updatedAt = 1000\<rparr>"

definition sample_overwritten :: VocabularyItem where
  "sample_overwritten =
     \<lparr>vi_id = ''v1'', vi_languageProfileId = ''p1'', vi_userId = ''alice'',
      vi_term = ''adios'', vi_translation = Some ''goodbye'', vi_partOfSpeech = None,
      vi_exampleSentence = None, vi_exampleTranslation = None, vi_difficulty = None,
      vi_tags = None, vi_lastReviewedAt = None, vi_nextReviewAt = None,
      vi_successStreak = None, vi_totalReviews = None, vi_createdAt = 20,
      vi_updatedAt = 1000\<rparr>"

definition sample_returned :: VocabularyItem where
  "sample_returned =
     \<lparr>vi_id = ''v1'', vi_languageProfileId = ''p1'', vi_userId = ''alice'',
      vi_term = ''adios'', vi_translation = Some ''goodbye'', vi_partOfSpeech = None,
      vi_exampleSentence = None, vi_exampleTranslation = None, vi_difficulty = Some ''easy'',
      vi_tags = None, vi_lastReviewedAt = None, vi_nextReviewAt = None,
      vi_successStreak = Some 2, vi_totalReviews = Some 5, vi_createdAt = 20,
      vi_updatedAt = 1000\<rparr>"

text \<open>The session \<open>sample_start\<close> creates, and the session \<^verbatim>\<open>s1\<close> once completed.\<close>

definition sample_started :: PracticeSession where
  "sample_started =
     \<lparr>ps_id = ''uuid-1'', ps_languageProfileId = ''p1'', ps_userId = ''alice'',
      ps_mode = Some ''quiz'', ps_startedAt = 1000, ps_endedAt = None,
      ps_totalQuestions = Some 10, ps_correctAnswers = None, ps_notes = None,
      ps_createdAt = 1000\<rparr>"

definition sample_completed :: PracticeSession where
  "sample_completed =
     \<lparr>ps_id = ''s1'', ps_languageProfileId = ''p1'', ps_userId = ''alice'',
      ps_mode = Some ''quiz'', ps_startedAt = 30, ps_endedAt = Some 1000,
      ps_totalQuestions = Some 10, ps_correctAnswers = Some 8, ps_notes = Some ''first run'',
      ps_createdAt = 30\<rparr>"

section \<open>Properties\<close>

subsection \<open>Evaluation of the model and facts about the persistence layer\<close>

lemmas sample_defs = sample_db_def sample_db_other_def sample_item_def sample_profile_def
  sample_session_def sample_rt_def sample_list_def sample_upsert_def signed_in_def alice_def bob_def
  sample_update_def sample_start_def sample_complete_def sample_inserted_def
  sample_overwritten_def sample_returned_def sample_started_def sample_completed_def

lemmas run_defs = requireUser_def defineAction_def select_where_def update_set_where_def
  delete_where_def insert_values_def limit_offset_def first_row_def nullish_def nullish_opt_def
  string_min1_def truthy_def

lemma first_row_filter_None: "first_row (select_where c t) = None \<longleftrightarrow> (\<forall>r\<in>set t. \<not> c r)"
proof -
  have "first_row (select_where c t) = None \<longleftrightarrow> filter c t = []"
    by (simp add: first_row_def select_where_def split: list.splits)
  then show ?thesis by (simp add: filter_empty_conv)
qed

lemma first_row_filter_Some:
  "first_row (select_where c t) = Some x \<Longrightarrow> x \<in> set t \<and> c x"
proof -
  assume "first_row (select_where c t) = Some x"
  then obtain xs where "filter c t = x # xs"
    by (auto simp: first_row_def select_where_def split: list.splits)
  then have "x \<in> set (filter c t)" by simp
  then show ?thesis by simp
qed

text \<open>With a unique key, an update of the rows with that key rewrites one position.\<close>

lemma update_set_where_unique:
  assumes "distinct (map key t)" and "x \<in> set t" and "\<And>r. c r \<Longrightarrow> key r = key x" and "c x"
  obtains k where "k < length t" and "t ! k = x"
    and "\<And>f. update_set_where f c t = t[k := f x]"
proof -
  from assms(2) obtain k where k: "k < length t" "t ! k = x"
    by (auto simp: in_set_conv_nth)
  have "update_set_where f c t = t[k := f x]" for f
  proof (rule nth_equalityI)
    show "length (update_set_where f c t) = length (t[k := f x])"
      by (simp add: update_set_where_def)
  next
    fix i assume "i < length (update_set_where f c t)"
    then have i: "i < length t" by (simp add: update_set_where_def)
    show "update_set_where f c t ! i = t[k := f x] ! i"
    proof (cases "i = k")
      case True
      with k assms(4) show ?thesis by (simp add: update_set_where_def)
    next
      case False
      have "\<not> c (t ! i)"
      proof
        assume "c (t ! i)"
        then have "key (t ! i) = key (t ! k)" using assms(3) k by simp
        then have "map key t ! i = map key t ! k" using i k by simp
        moreover have "i < length (map key t)" "k < length (map key t)" using i k by simp_all
        ultimately have "i = k" using assms(1) nth_eq_iff_index_eq by blast
        with False show False by simp
      qed
      with i False show ?thesis by (simp add: update_set_where_def)
    qed
  qed
  with k show thesis by (rule that)
qed

subsection \<open>The paginated lists\<close>

lemma listPage_input_Some:
  assumes "listPage_input raw = Some inp"
  shows "lpp_languageProfileId inp = lpi_languageProfileId raw"
    and "lpp_page inp = nullish (lpi_page raw) 1"
    and "lpp_pageSize inp = nullish (lpi_pageSize raw) 20"
    and "0 < lpp_page inp" and "0 < lpp_pageSize inp" and "lpp_pageSize inp \<le> 100"
  using assms by (auto simp: listPage_input_def Let_def split: if_splits)

lemma listVocabularyItems_run:
  assumes "requireUser context = Inr u" and "listPage_input raw = Some inp"
  shows "listVocabularyItems raw context db =
     (Inr \<lparr>items = take (nat (lpp_pageSize inp)) (drop (nat ((lpp_page inp - 1) * lpp_pageSize inp))
                      (matching_items (lpp_languageProfileId inp) (user_id u) db)),
           total = length (take (nat (lpp_pageSize inp)) (drop (nat ((lpp_page inp - 1) * lpp_pageSize inp))
                      (matching_items (lpp_languageProfileId inp) (user_id u) db))),
           page = lpp_page inp, pageSize = lpp_pageSize inp\<rparr>, db)"
  using assms
  by (simp add: listVocabularyItems_def defineAction_def listVocabularyItems_handler_def
      limit_offset_def select_where_def matching_items_def Let_def)

lemma listPracticeSessions_run:
  assumes "requireUser context = Inr u" and "listPage_input raw = Some inp"
  shows "listPracticeSessions raw context db =
     (Inr \<lparr>items = take (nat (lpp_pageSize inp)) (drop (nat ((lpp_page inp - 1) * lpp_pageSize inp))
                      (matching_sessions (lpp_languageProfileId inp) (user_id u) db)),
           total = length (take (nat (lpp_pageSize inp)) (drop (nat ((lpp_page inp - 1) * lpp_pageSize inp))
                      (matching_sessions (lpp_languageProfileId inp) (user_id u) db))),
           page = lpp_page inp, pageSize = lpp_pageSize inp\<rparr>, db)"
  using assms
  by (simp add: listPracticeSessions_def defineAction_def listPracticeSessions_handler_def
      limit_offset_def select_where_def matching_sessions_def Let_def)

lemma listVocabularyItems_success:
  assumes "fst (listVocabularyItems raw context db) = Inr pg"
  shows "\<exists>u inp. requireUser context = Inr u \<and> listPage_input raw = Some inp"
  using assms
  by (auto simp: listVocabularyItems_def defineAction_def listVocabularyItems_handler_def
      split: option.splits sum.splits)

lemma listPracticeSessions_success:
  assumes "fst (listPracticeSessions raw context db) = Inr pg"
  shows "\<exists>u inp. requireUser context = Inr u \<and> listPage_input raw = Some inp"
  using assms
  by (auto simp: listPracticeSessions_def defineAction_def listPracticeSessions_handler_def
      split: option.splits sum.splits)

lemma page_length:
  fixes p n :: int
  assumes "0 < p" and "0 < n"
  shows "length (take (nat n) (drop (nat ((p - 1) * n)) xs)) = min (nat n) (length xs - nat ((p - 1) * n))"
    and "nat (p * n) \<le> length xs \<Longrightarrow> length (take (nat n) (drop (nat ((p - 1) * n)) xs)) = nat n"
proof -
  show "length (take (nat n) (drop (nat ((p - 1) * n)) xs)) = min (nat n) (length xs - nat ((p - 1) * n))"
    by (simp add: min.commute)
  assume le: "nat (p * n) \<le> length xs"
  have "p * n = (p - 1) * n + n" by (simp add: algebra_simps)
  moreover have "0 \<le> (p - 1) * n" using assms by simp
  ultimately have "nat (p * n) = nat ((p - 1) * n) + nat n"
    using assms by (simp add: nat_add_distrib)
  with le show "length (take (nat n) (drop (nat ((p - 1) * n)) xs)) = nat n"
    by simp
qed

text \<open>
  C4 (amended). For every successful \<^verbatim>\<open>listVocabularyItems\<close> and \<^verbatim>\<open>listPracticeSessions\<close>
  call, \<^verbatim>\<open>total\<close> is the number of items of the returned page: the smaller of
  \<^verbatim>\<open>pageSize\<close> and the number of matching rows left after the offset
  \<^verbatim>\<open>(page - 1) * pageSize\<close>. It equals \<^verbatim>\<open>pageSize\<close> whenever the collection holds at least
  \<^verbatim>\<open>page * pageSize\<close> matching rows (the first page of a collection with more than
  \<^verbatim>\<open>pageSize\<close> matching rows, for one); it is not a count of the collection.
\<close>

theorem list_total_is_length_of_page:
  assumes "requireUser context = Inr u"
  shows "(fst (listVocabularyItems raw context db) = Inr pg \<longrightarrow>
            total pg = length (items pg) \<and>
            total pg = min (nat (pageSize pg))
              (length (matching_items (lpi_languageProfileId raw) (user_id u) db)
                 - nat ((page pg - 1) * pageSize pg)) \<and>
            (nat (page pg * pageSize pg)
               \<le> length (matching_items (lpi_languageProfileId raw) (user_id u) db)
             \<longrightarrow> total pg = nat (pageSize pg))) \<and>
         (fst (listPracticeSessions raw context db) = Inr ps \<longrightarrow>
            total ps = length (items ps) \<and>
            total ps = min (nat (pageSize ps))
              (length (matching_sessions (lpi_languageProfileId raw) (user_id u) db)
                 - nat ((page ps - 1) * pageSize ps)) \<and>
            (nat (page ps * pageSize ps)
               \<le> length (matching_sessions (lpi_languageProfileId raw) (user_id u) db)
             \<longrightarrow> total ps = nat (pageSize ps)))"
proof (intro conjI impI)
  assume ok: "fst (listVocabularyItems raw context db) = Inr pg"
  then obtain u' inp where a: "requireUser context = Inr u'" "listPage_input raw = Some inp"
    using listVocabularyItems_success by blast
  with assms have [simp]: "u' = u" by simp
  note r = listVocabularyItems_run[OF a, of db]
  note i = listPage_input_Some[OF a(2)]
  from ok r have pg: "pg = \<lparr>items = take (nat (lpp_pageSize inp)) (drop (nat ((lpp_page inp - 1) * lpp_pageSize inp))
                      (matching_items (lpp_languageProfileId inp) (user_id u) db)),
           total = length (take (nat (lpp_pageSize inp)) (drop (nat ((lpp_page inp - 1) * lpp_pageSize inp))
                      (matching_items (lpp_languageProfileId inp) (user_id u) db))),
           page = lpp_page inp, pageSize = lpp_pageSize inp\<rparr>" by simp
  show "total pg = length (items pg)" by (simp add: pg)
  show "total pg = min (nat (pageSize pg))
              (length (matching_items (lpi_languageProfileId raw) (user_id u) db)
                 - nat ((page pg - 1) * pageSize pg))"
    unfolding pg using page_length(1)[OF i(4,5)] i(1) by simp
  show "total pg = nat (pageSize pg)" if "nat (page pg * pageSize pg)
               \<le> length (matching_items (lpi_languageProfileId raw) (user_id u) db)"
    using that page_length(2)[OF i(4,5)] i(1) unfolding pg by simp
next
  assume ok: "fst (listPracticeSessions raw context db) = Inr ps"
  then obtain u' inp where a: "requireUser context = Inr u'" "listPage_input raw = Some inp"
    using listPracticeSessions_success by blast
  with assms have [simp]: "u' = u" by simp
  note r = listPracticeSessions_run[OF a, of db]
  note i = listPage_input_Some[OF a(2)]
  from ok r have pg: "ps = \<lparr>items = take (nat (lpp_pageSize inp)) (drop (nat ((lpp_page inp - 1) * lpp_pageSize inp))
                      (matching_sessions (lpp_languageProfileId inp) (user_id u) db)),
           total = length (take (nat (lpp_pageSize inp)) (drop (nat ((lpp_page inp - 1) * lpp_pageSize inp))
                      (matching_sessions (lpp_languageProfileId inp) (user_id u) db))),
           page = lpp_page inp, pageSize = lpp_pageSize inp\<rparr>" by simp
  show "total ps = length (items ps)" by (simp add: pg)
  show "total ps = min (nat (pageSize ps))
              (length (matching_sessions (lpi_languageProfileId raw) (user_id u) db)
                 - nat ((page ps - 1) * pageSize ps))"
    unfolding pg using page_length(1)[OF i(4,5)] i(1) by simp
  show "total ps = nat (pageSize ps)" if "nat (page ps * pageSize ps)
               \<le> length (matching_sessions (lpi_languageProfileId raw) (user_id u) db)"
    using that page_length(2)[OF i(4,5)] i(1) unfolding pg by simp
qed


text \<open>
  On a later page the page can be shorter than \<^verbatim>\<open>pageSize\<close>, although the collection has
  more than \<^verbatim>\<open>pageSize\<close> matching rows: three rows of alice under \<^verbatim>\<open>p1\<close>, page 2 of
  size 2 holds one item and \<^verbatim>\<open>total\<close> is 1.
\<close>

theorem list_total_counterexample:
  "fst (listVocabularyItems (sample_list 2 2) (signed_in alice) sample_db) =
     Inr \<lparr>items = [sample_item ''v4'' ''p1'' ''alice'' ''casa''], total = 1, page = 2, pageSize = 2\<rparr>
   \<and> length (matching_items ''p1'' ''alice'' sample_db) = 3"
  by (simp add: listVocabularyItems_def listPage_input_def listVocabularyItems_handler_def
      matching_items_def sample_defs run_defs Let_def)

theorem list_total_is_length_of_page_witness:
  "requireUser (signed_in alice) = Inr alice \<and>
   fst (listVocabularyItems (sample_list 1 2) (signed_in alice) sample_db) =
     Inr \<lparr>items = [sample_item ''v1'' ''p1'' ''alice'' ''hola'', sample_item ''v3'' ''p1'' ''alice'' ''perro''],
          total = 2, page = 1, pageSize = 2\<rparr> \<and>
   nat (1 * 2) \<le> length (matching_items ''p1'' ''alice'' sample_db) \<and>
   fst (listPracticeSessions (sample_list 1 2) (signed_in alice) sample_db) =
     Inr \<lparr>items = [sample_session ''s1'' ''p1'' ''alice''], total = 1, page = 1, pageSize = 2\<rparr> \<and>
   total \<lparr>items = [sample_item ''v1'' ''p1'' ''alice'' ''hola'', sample_item ''v3'' ''p1'' ''alice'' ''perro''],
          total = 2, page = 1, pageSize = (2::int)\<rparr> = nat 2"
proof -
  have a: "requireUser (signed_in alice) = Inr alice"
    by (simp add: requireUser_def signed_in_def)
  have b: "fst (listVocabularyItems (sample_list 1 2) (signed_in alice) sample_db) =
     Inr \<lparr>items = [sample_item ''v1'' ''p1'' ''alice'' ''hola'', sample_item ''v3'' ''p1'' ''alice'' ''perro''],
          total = 2, page = 1, pageSize = 2\<rparr>"
    by (simp add: listVocabularyItems_def listPage_input_def listVocabularyItems_handler_def
      sample_defs run_defs Let_def)
  have c: "fst (listPracticeSessions (sample_list 1 2) (signed_in alice) sample_db) =
     Inr \<lparr>items = [sample_session ''s1'' ''p1'' ''alice''], total = 1, page = 1, pageSize = 2\<rparr>"
    by (simp add: listPracticeSessions_def listPage_input_def listPracticeSessions_handler_def
      sample_defs run_defs Let_def)
  have d: "nat (1 * 2) \<le> length (matching_items ''p1'' ''alice'' sample_db)"
    by (simp add: matching_items_def sample_defs)
  from list_total_is_length_of_page[OF a, of "sample_list 1 2" sample_db _ _] a b c d
  show ?thesis by (simp add: sample_list_def alice_def)
qed


lemma distinct_matching_items:
  "distinct (map vi_id (VocabularyItems db)) \<Longrightarrow> distinct (matching_items pid uid db)"
  by (simp add: matching_items_def distinct_map)

text \<open>
  C5. For a caller, a \<^verbatim>\<open>languageProfileId\<close> and a page size \<open>n\<close> the schema accepts, over a
  database with at least \<open>n + 1\<close> matching items, page 1 is the first \<open>n\<close> matching items
  and page 2 the (at most \<open>n\<close>) items that follow them: the two pages together are the
  first \<open>2 n\<close> matching items in table order, page 2 is not empty, no call changes the
  database, and (the primary key being unique) no item is in both pages.
\<close>

theorem pagination_coherence:
  assumes "requireUser context = Inr u" and "string_min1 pid" and "0 < n" and "n \<le> 100"
    and "nat n + 1 \<le> length (matching_items pid (user_id u) db)"
    and "distinct (map vi_id (VocabularyItems db))"
  shows "\<exists>pg1 pg2.
      listVocabularyItems
        \<lparr>lpi_languageProfileId = pid, lpi_page = Some 1, lpi_pageSize = Some n\<rparr> context db
        = (Inr pg1, db) \<and>
      listVocabularyItems
        \<lparr>lpi_languageProfileId = pid, lpi_page = Some 2, lpi_pageSize = Some n\<rparr> context db
        = (Inr pg2, db) \<and>
      items pg1 = take (nat n) (matching_items pid (user_id u) db) \<and>
      items pg2 = take (nat n) (drop (nat n) (matching_items pid (user_id u) db)) \<and>
      items pg1 @ items pg2 = take (2 * nat n) (matching_items pid (user_id u) db) \<and>
      length (items pg1) = nat n \<and>
      items pg2 \<noteq> [] \<and>
      set (items pg1) \<inter> set (items pg2) = {}"
proof -
  let ?M = "matching_items pid (user_id u) db"
  let ?raw = "\<lambda>p. \<lparr>lpi_languageProfileId = pid, lpi_page = Some p, lpi_pageSize = Some n\<rparr>"
  have parse: "listPage_input (?raw p) =
      Some \<lparr>lpp_languageProfileId = pid, lpp_page = p, lpp_pageSize = n\<rparr>" if "0 < p" for p
    using that assms(2-4) by (simp add: listPage_input_def nullish_def)
  have r1: "listVocabularyItems (?raw 1) context db =
      (Inr \<lparr>items = take (nat n) ?M, total = length (take (nat n) ?M), page = 1, pageSize = n\<rparr>, db)"
    using listVocabularyItems_run[OF assms(1) parse[of 1], of db] by simp
  have r2: "listVocabularyItems (?raw 2) context db =
      (Inr \<lparr>items = take (nat n) (drop (nat n) ?M),
            total = length (take (nat n) (drop (nat n) ?M)), page = 2, pageSize = n\<rparr>, db)"
    using listVocabularyItems_run[OF assms(1) parse[of 2], of db] by simp
  have app: "take (nat n) ?M @ take (nat n) (drop (nat n) ?M) = take (2 * nat n) ?M"
    by (simp add: take_add[symmetric] mult_2)
  have len: "length (take (nat n) ?M) = nat n"
    using assms(5) by simp
  have ne: "take (nat n) (drop (nat n) ?M) \<noteq> []"
    using assms(3,5) by simp
  have "set (take (nat n) ?M) \<inter> set (drop (nat n) ?M) = {}"
    using distinct_matching_items[OF assms(6)] by (rule set_take_disj_set_drop_if_distinct) simp
  moreover have "set (take (nat n) (drop (nat n) ?M)) \<subseteq> set (drop (nat n) ?M)"
    by (rule set_take_subset)
  ultimately have dis: "set (take (nat n) ?M) \<inter> set (take (nat n) (drop (nat n) ?M)) = {}"
    by blast
  from r1 r2 app len ne dis show ?thesis by simp
qed

theorem pagination_coherence_witness:
  "requireUser (signed_in alice) = Inr alice \<and> string_min1 ''p1'' \<and> (0::int) < 2 \<and> (2::int) \<le> 100 \<and>
   nat 2 + 1 \<le> length (matching_items ''p1'' (user_id alice) sample_db) \<and>
   distinct (map vi_id (VocabularyItems sample_db)) \<and>
   (\<exists>pg1 pg2.
      listVocabularyItems (sample_list 1 2) (signed_in alice) sample_db = (Inr pg1, sample_db) \<and>
      listVocabularyItems (sample_list 2 2) (signed_in alice) sample_db = (Inr pg2, sample_db) \<and>
      items pg1 = take (nat 2) (matching_items ''p1'' (user_id alice) sample_db) \<and>
      items pg2 = take (nat 2) (drop (nat 2) (matching_items ''p1'' (user_id alice) sample_db)) \<and>
      items pg1 @ items pg2 = take (2 * nat 2) (matching_items ''p1'' (user_id alice) sample_db) \<and>
      length (items pg1) = nat 2 \<and>
      items pg2 \<noteq> [] \<and>
      set (items pg1) \<inter> set (items pg2) = {})"
proof -
  have a: "requireUser (signed_in alice) = Inr alice"
    by (simp add: requireUser_def signed_in_def)
  have b: "string_min1 ''p1''" by (simp add: string_min1_def)
  have c: "(0::int) < 2" "(2::int) \<le> 100" by simp_all
  have d: "nat 2 + 1 \<le> length (matching_items ''p1'' (user_id alice) sample_db)"
    by (simp add: matching_items_def sample_defs)
  have e: "distinct (map vi_id (VocabularyItems sample_db))"
    by (simp add: sample_defs)
  from pagination_coherence[OF a b c d e] a b c d e show ?thesis
    by (simp add: sample_list_def)
qed



subsection \<open>Profile update\<close>

lemma updateLanguageProfile_success:
  assumes "updateLanguageProfile rt input context db = (Inr prof, db')"
  obtains u existing where "requireUser context = Inr u"
    and "string_min1 (ulp_id input)"
    and "first_row (select_where (\<lambda>r. lp_id r = ulp_id input \<and> lp_userId r = user_id u)
           (LanguageProfiles db)) = Some existing"
    and "prof = existing\<lparr>
           lp_targetLanguage := nullish (ulp_targetLanguage input) (lp_targetLanguage existing),
           lp_nativeLanguage := nullish_opt (ulp_nativeLanguage input) (lp_nativeLanguage existing),
           lp_proficiencyLevel :=
             nullish_opt (ulp_proficiencyLevel input) (lp_proficiencyLevel existing),
           lp_goals := nullish_opt (ulp_goals input) (lp_goals existing),
           lp_isActive := nullish (ulp_isActive input) (lp_isActive existing),
           lp_updatedAt := new_Date rt\<rparr>"
    and "db' = db\<lparr>LanguageProfiles :=
           update_set_where (\<lambda>r. r\<lparr>
               lp_targetLanguage := nullish (ulp_targetLanguage input) (lp_targetLanguage existing),
               lp_nativeLanguage := nullish_opt (ulp_nativeLanguage input) (lp_nativeLanguage existing),
               lp_proficiencyLevel :=
                 nullish_opt (ulp_proficiencyLevel input) (lp_proficiencyLevel existing),
               lp_goals := nullish_opt (ulp_goals input) (lp_goals existing),
               lp_isActive := nullish (ulp_isActive input) (lp_isActive existing),
               lp_updatedAt := new_Date rt\<rparr>)
             (\<lambda>r. lp_id r = ulp_id input \<and> lp_userId r = user_id u)
             (LanguageProfiles db)\<rparr>"
proof -
  from assms have v: "string_min1 (ulp_id input)"
    by (auto simp: updateLanguageProfile_def defineAction_def updateLanguageProfile_input_def
        split: if_splits)
  with assms have h: "updateLanguageProfile_handler rt input context db = (Inr prof, db')"
    by (simp add: updateLanguageProfile_def defineAction_def updateLanguageProfile_input_def)
  then obtain u where u: "requireUser context = Inr u"
    by (auto simp: updateLanguageProfile_handler_def split: sum.splits)
  with h obtain existing where e: "first_row (select_where
      (\<lambda>r. lp_id r = ulp_id input \<and> lp_userId r = user_id u) (LanguageProfiles db)) = Some existing"
    by (auto simp: updateLanguageProfile_handler_def split: option.splits)
  then have "lp_id existing = ulp_id input"
    using first_row_filter_Some by fastforce
  then have [simp]: "existing\<lparr>lp_id := ulp_id input\<rparr> = existing" by auto
  show thesis
    by (rule that[OF u v e]) (use h u e in \<open>simp_all add: updateLanguageProfile_handler_def Let_def\<close>)
qed

text \<open>
  C3. For every successful \<^verbatim>\<open>updateLanguageProfile\<close> call (the primary key of the table being
  unique) one row changes, the one with the given id and the caller's \<^verbatim>\<open>userId\<close>: each of
  \<^verbatim>\<open>targetLanguage\<close>, \<^verbatim>\<open>nativeLanguage\<close>, \<^verbatim>\<open>proficiencyLevel\<close>, \<^verbatim>\<open>goals\<close> and
  \<^verbatim>\<open>isActive\<close> keeps its stored value when the input omits it and takes the input's value
  when supplied, \<^verbatim>\<open>updatedAt\<close> is the time of the call, and \<^verbatim>\<open>id\<close>, \<^verbatim>\<open>userId\<close> and
  \<^verbatim>\<open>createdAt\<close> stay as they were. The returned profile is the stored row.
\<close>

theorem updateLanguageProfile_merges:
  assumes "updateLanguageProfile rt input context db = (Inr prof, db')"
    and "distinct (map lp_id (LanguageProfiles db))"
  shows "\<exists>u k old. requireUser context = Inr u \<and> k < length (LanguageProfiles db) \<and>
      old = LanguageProfiles db ! k \<and>
      lp_id old = ulp_id input \<and> lp_userId old = user_id u \<and>
      db' = db\<lparr>LanguageProfiles := (LanguageProfiles db)[k := prof]\<rparr> \<and>
      lp_targetLanguage prof =
        (case ulp_targetLanguage input of None \<Rightarrow> lp_targetLanguage old | Some v \<Rightarrow> v) \<and>
      lp_nativeLanguage prof =
        (case ulp_nativeLanguage input of None \<Rightarrow> lp_nativeLanguage old | Some v \<Rightarrow> Some v) \<and>
      lp_proficiencyLevel prof =
        (case ulp_proficiencyLevel input of None \<Rightarrow> lp_proficiencyLevel old | Some v \<Rightarrow> Some v) \<and>
      lp_goals prof = (case ulp_goals input of None \<Rightarrow> lp_goals old | Some v \<Rightarrow> Some v) \<and>
      lp_isActive prof = (case ulp_isActive input of None \<Rightarrow> lp_isActive old | Some v \<Rightarrow> v) \<and>
      lp_updatedAt prof = new_Date rt \<and>
      lp_id prof = lp_id old \<and> lp_userId prof = lp_userId old \<and>
      lp_createdAt prof = lp_createdAt old"
proof -
  from assms(1) obtain u existing where u: "requireUser context = Inr u"
    and e: "first_row (select_where (\<lambda>r. lp_id r = ulp_id input \<and> lp_userId r = user_id u)
           (LanguageProfiles db)) = Some existing"
    and p: "prof = existing\<lparr>
           lp_targetLanguage := nullish (ulp_targetLanguage input) (lp_targetLanguage existing),
           lp_nativeLanguage := nullish_opt (ulp_nativeLanguage input) (lp_nativeLanguage existing),
           lp_proficiencyLevel :=
             nullish_opt (ulp_proficiencyLevel input) (lp_proficiencyLevel existing),
           lp_goals := nullish_opt (ulp_goals input) (lp_goals existing),
           lp_isActive := nullish (ulp_isActive input) (lp_isActive existing),
           lp_updatedAt := new_Date rt\<rparr>"
    and d: "db' = db\<lparr>LanguageProfiles :=
           update_set_where (\<lambda>r. r\<lparr>
               lp_targetLanguage := nullish (ulp_targetLanguage input) (lp_targetLanguage existing),
               lp_nativeLanguage := nullish_opt (ulp_nativeLanguage input) (lp_nativeLanguage existing),
               lp_proficiencyLevel :=
                 nullish_opt (ulp_proficiencyLevel input) (lp_proficiencyLevel existing),
               lp_goals := nullish_opt (ulp_goals input) (lp_goals existing),
               lp_isActive := nullish (ulp_isActive input) (lp_isActive existing),
               lp_updatedAt := new_Date rt\<rparr>)
             (\<lambda>r. lp_id r = ulp_id input \<and> lp_userId r = user_id u)
             (LanguageProfiles db)\<rparr>"
    by (rule updateLanguageProfile_success)
  from first_row_filter_Some[OF e]
  have mem: "existing \<in> set (LanguageProfiles db)"
    and m: "lp_id existing = ulp_id input" "lp_userId existing = user_id u" by simp_all
  obtain k where k: "k < length (LanguageProfiles db)" "LanguageProfiles db ! k = existing"
    and upd: "\<And>f. update_set_where f (\<lambda>r. lp_id r = ulp_id input \<and> lp_userId r = user_id u)
       (LanguageProfiles db) = (LanguageProfiles db)[k := f existing]"
  proof (rule update_set_where_unique[where key = lp_id
        and c = "\<lambda>r. lp_id r = ulp_id input \<and> lp_userId r = user_id u", OF assms(2) mem])
    show "lp_id r = lp_id existing" if "lp_id r = ulp_id input \<and> lp_userId r = user_id u" for r
      using that m by simp
    show "lp_id existing = ulp_id input \<and> lp_userId existing = user_id u" using m by simp
  qed (rule that)
  show ?thesis
    apply (rule exI[of _ u], rule exI[of _ k], rule exI[of _ existing])
    using u k m by (simp add: p d upd nullish_def nullish_opt_def)
qed


theorem updateLanguageProfile_merges_witness:
  "updateLanguageProfile sample_rt sample_update (signed_in alice) sample_db =
     (Inr ((sample_profile ''p1'' ''alice'')
            \<lparr>lp_targetLanguage := ''fr'', lp_isActive := False, lp_updatedAt := 1000\<rparr>),
      sample_db\<lparr>LanguageProfiles :=
        [(sample_profile ''p1'' ''alice'')
            \<lparr>lp_targetLanguage := ''fr'', lp_isActive := False, lp_updatedAt := 1000\<rparr>,
         sample_profile ''p2'' ''bob'']\<rparr>) \<and>
   distinct (map lp_id (LanguageProfiles sample_db)) \<and>
   (\<exists>k. k < length (LanguageProfiles sample_db) \<and>
      lp_nativeLanguage ((sample_profile ''p1'' ''alice'')
            \<lparr>lp_targetLanguage := ''fr'', lp_isActive := False, lp_updatedAt := 1000\<rparr>) =
        (case ulp_nativeLanguage sample_update of
           None \<Rightarrow> lp_nativeLanguage (LanguageProfiles sample_db ! k) | Some v \<Rightarrow> Some v) \<and>
      lp_targetLanguage ((sample_profile ''p1'' ''alice'')
            \<lparr>lp_targetLanguage := ''fr'', lp_isActive := False, lp_updatedAt := 1000\<rparr>) =
        (case ulp_targetLanguage sample_update of
           None \<Rightarrow> lp_targetLanguage (LanguageProfiles sample_db ! k) | Some v \<Rightarrow> v))"
proof -
  have a: "updateLanguageProfile sample_rt sample_update (signed_in alice) sample_db =
     (Inr ((sample_profile ''p1'' ''alice'')
            \<lparr>lp_targetLanguage := ''fr'', lp_isActive := False, lp_updatedAt := 1000\<rparr>),
      sample_db\<lparr>LanguageProfiles :=
        [(sample_profile ''p1'' ''alice'')
            \<lparr>lp_targetLanguage := ''fr'', lp_isActive := False, lp_updatedAt := 1000\<rparr>,
         sample_profile ''p2'' ''bob'']\<rparr>)"
    by (simp add: updateLanguageProfile_def updateLanguageProfile_input_def
        updateLanguageProfile_handler_def sample_defs run_defs Let_def)
  have b: "distinct (map lp_id (LanguageProfiles sample_db))"
    by (simp add: sample_defs)
  from updateLanguageProfile_merges[OF a b] a b show ?thesis by blast
qed

subsection \<open>Vocabulary upsert\<close>

lemma upsertVocabularyItem_failure:
  "fst (upsertVocabularyItem rt input context db) = Inl e \<Longrightarrow>
   snd (upsertVocabularyItem rt input context db) = db"
  by (auto simp: upsertVocabularyItem_def defineAction_def upsertVocabularyItem_handler_def
      Let_def split: option.splits sum.splits)

lemma upsertVocabularyItem_update_path:
  assumes "requireUser context = Inr u" and "upsertVocabularyItem_input input \<noteq> None"
    and "truthy (uvi_id input) = Some iid"
  shows "upsertVocabularyItem rt input context db =
     (case first_row (select_where
             (\<lambda>r. lp_id r = uvi_languageProfileId input \<and> lp_userId r = user_id u)
             (LanguageProfiles db)) of
        None \<Rightarrow> (Inl (NOT_FOUND ''Language profile not found.''), db)
      | Some profile \<Rightarrow>
          (case first_row (select_where (\<lambda>r. vi_id r = iid \<and> vi_userId r = user_id u)
                  (VocabularyItems db)) of
             None \<Rightarrow> (Inl (NOT_FOUND ''Vocabulary item not found.''), db)
           | Some existing \<Rightarrow>
               (Inr (upsert_returned existing input (new_Date rt) (user_id u)),
                db\<lparr>VocabularyItems :=
                     update_set_where (upsert_set input (new_Date rt))
                       (\<lambda>r. vi_id r = iid \<and> vi_userId r = user_id u)
                       (VocabularyItems db)\<rparr>)))"
  using assms
  by (auto simp: upsertVocabularyItem_def defineAction_def upsertVocabularyItem_input_def
      upsertVocabularyItem_handler_def Let_def split: option.splits if_splits)

lemma upsertVocabularyItem_success:
  assumes "upsertVocabularyItem rt input context db = (Inr item, db')"
  shows "\<exists>u. requireUser context = Inr u \<and> upsertVocabularyItem_input input \<noteq> None"
  using assms
  by (auto simp: upsertVocabularyItem_def defineAction_def upsertVocabularyItem_handler_def
      split: option.splits sum.splits)


text \<open>
  C7. Whenever \<^verbatim>\<open>upsertVocabularyItem\<close> fails, the database is left exactly as it was; and a
  signed-in call with an accepted input and an id for which the caller owns no item (the id is
  absent, or the item carries another \<^verbatim>\<open>userId\<close>) fails with \<^verbatim>\<open>NOT_FOUND\<close>.
\<close>

theorem upsertVocabularyItem_failure_is_atomic:
  "(fst (upsertVocabularyItem rt input context db) = Inl e \<longrightarrow>
      snd (upsertVocabularyItem rt input context db) = db) \<and>
   (requireUser context = Inr u \<and> upsertVocabularyItem_input input \<noteq> None \<and>
    truthy (uvi_id input) = Some iid \<and>
    \<not> list_ex (\<lambda>r. vi_id r = iid \<and> vi_userId r = user_id u) (VocabularyItems db) \<longrightarrow>
      is_NOT_FOUND (fst (upsertVocabularyItem rt input context db)) \<and>
      snd (upsertVocabularyItem rt input context db) = db)"
proof (intro conjI impI)
  show "snd (upsertVocabularyItem rt input context db) = db"
    if "fst (upsertVocabularyItem rt input context db) = Inl e"
    using that by (rule upsertVocabularyItem_failure)
next
  assume h: "requireUser context = Inr u \<and> upsertVocabularyItem_input input \<noteq> None \<and>
    truthy (uvi_id input) = Some iid \<and>
    \<not> list_ex (\<lambda>r. vi_id r = iid \<and> vi_userId r = user_id u) (VocabularyItems db)"
  then have none: "first_row (select_where (\<lambda>r. vi_id r = iid \<and> vi_userId r = user_id u)
      (VocabularyItems db)) = None"
    by (simp add: first_row_filter_None list_ex_iff)
  note r = upsertVocabularyItem_update_path[OF conjunct1[OF h] conjunct1[OF conjunct2[OF h]]
        conjunct1[OF conjunct2[OF conjunct2[OF h]]], of rt db]
  show "is_NOT_FOUND (fst (upsertVocabularyItem rt input context db))"
    by (simp add: r none is_NOT_FOUND_def split: option.splits)
  show "snd (upsertVocabularyItem rt input context db) = db"
    by (simp add: r none split: option.splits)
qed


lemmas upsert_defs = upsertVocabularyItem_def upsertVocabularyItem_input_def
  upsertVocabularyItem_handler_def upsert_set_def upsert_returned_def



theorem upsertVocabularyItem_failure_is_atomic_witness:
  "requireUser (signed_in alice) = Inr alice \<and>
   upsertVocabularyItem_input (sample_upsert (Some ''v2'')) \<noteq> None \<and>
   truthy (uvi_id (sample_upsert (Some ''v2''))) = Some ''v2'' \<and>
   \<not> list_ex (\<lambda>r. vi_id r = ''v2'' \<and> vi_userId r = user_id alice) (VocabularyItems sample_db) \<and>
   fst (upsertVocabularyItem sample_rt (sample_upsert (Some ''v2'')) (signed_in alice) sample_db)
     = Inl (NOT_FOUND ''Vocabulary item not found.'') \<and>
   is_NOT_FOUND (fst (upsertVocabularyItem sample_rt (sample_upsert (Some ''v2''))
     (signed_in alice) sample_db)) \<and>
   snd (upsertVocabularyItem sample_rt (sample_upsert (Some ''v2'')) (signed_in alice) sample_db)
     = sample_db"
proof -
  have a: "requireUser (signed_in alice) = Inr alice"
    by (simp add: requireUser_def signed_in_def)
  have b: "upsertVocabularyItem_input (sample_upsert (Some ''v2'')) \<noteq> None"
    by (simp add: upsertVocabularyItem_input_def sample_upsert_def string_min1_def)
  have c: "truthy (uvi_id (sample_upsert (Some ''v2''))) = Some ''v2''"
    by (simp add: truthy_def sample_upsert_def)
  have d: "\<not> list_ex (\<lambda>r. vi_id r = ''v2'' \<and> vi_userId r = user_id alice) (VocabularyItems sample_db)"
    by (simp add: sample_defs)
  have e: "fst (upsertVocabularyItem sample_rt (sample_upsert (Some ''v2'')) (signed_in alice) sample_db)
     = Inl (NOT_FOUND ''Vocabulary item not found.'')"
    by (simp add: upsert_defs sample_defs run_defs Let_def)
  from upsertVocabularyItem_failure_is_atomic[of sample_rt "sample_upsert (Some ''v2'')"
      "signed_in alice" sample_db "NOT_FOUND ''Vocabulary item not found.''" alice "''v2''"]
    a b c d e
  show ?thesis by blast
qed

subsection \<open>Vocabulary delete\<close>

lemma deleteVocabularyItem_run:
  assumes "requireUser context = Inr u" and "string_min1 (dvi_id input)"
  shows "deleteVocabularyItem input context db =
     (if snd (delete_where (\<lambda>r. vi_id r = dvi_id input \<and> vi_userId r = user_id u)
               (VocabularyItems db)) = 0
      then Inl (NOT_FOUND ''Vocabulary item not found.'') else Inr (),
      db\<lparr>VocabularyItems :=
           fst (delete_where (\<lambda>r. vi_id r = dvi_id input \<and> vi_userId r = user_id u)
                 (VocabularyItems db))\<rparr>)"
  using assms
  by (simp add: deleteVocabularyItem_def defineAction_def deleteVocabularyItem_input_def
      deleteVocabularyItem_handler_def Let_def split: prod.splits)

lemma delete_where_zero:
  "snd (delete_where c t) = 0 \<longleftrightarrow> \<not> list_ex c t"
  by (simp add: delete_where_def list_ex_iff filter_empty_conv)

lemma delete_where_again: "snd (delete_where c (fst (delete_where c t))) = 0"
  by (simp add: delete_where_def)

text \<open>
  C6. For a signed-in caller and an id the schema accepts, \<^verbatim>\<open>deleteVocabularyItem\<close> fails with
  \<^verbatim>\<open>NOT_FOUND\<close> exactly when the delete filtered by (id, owner) affects no row, that is when
  no item has that id and the caller's \<^verbatim>\<open>userId\<close>; otherwise it succeeds. The rows that
  matched are gone afterwards, so the same call repeated on the database it left fails with
  \<^verbatim>\<open>NOT_FOUND\<close>.
\<close>

theorem deleteVocabularyItem_not_found_iff:
  assumes "requireUser context = Inr u" and "string_min1 (dvi_id input)"
  shows "(fst (deleteVocabularyItem input context db) = Inl (NOT_FOUND ''Vocabulary item not found.'')
            \<longleftrightarrow> snd (delete_where (\<lambda>r. vi_id r = dvi_id input \<and> vi_userId r = user_id u)
                       (VocabularyItems db)) = 0) \<and>
         (snd (delete_where (\<lambda>r. vi_id r = dvi_id input \<and> vi_userId r = user_id u)
                 (VocabularyItems db)) = 0
            \<longleftrightarrow> \<not> list_ex (\<lambda>r. vi_id r = dvi_id input \<and> vi_userId r = user_id u)
                       (VocabularyItems db)) \<and>
         (fst (deleteVocabularyItem input context db) \<noteq> Inl (NOT_FOUND ''Vocabulary item not found.'')
            \<longrightarrow> fst (deleteVocabularyItem input context db) = Inr ()) \<and>
         snd (deleteVocabularyItem input context db) =
           db\<lparr>VocabularyItems :=
                filter (\<lambda>r. \<not> (vi_id r = dvi_id input \<and> vi_userId r = user_id u))
                  (VocabularyItems db)\<rparr> \<and>
         fst (deleteVocabularyItem input context (snd (deleteVocabularyItem input context db)))
           = Inl (NOT_FOUND ''Vocabulary item not found.'')"
proof -
  note r = deleteVocabularyItem_run[OF assms]
  have 1: "fst (deleteVocabularyItem input context db) = Inl (NOT_FOUND ''Vocabulary item not found.'')
            \<longleftrightarrow> snd (delete_where (\<lambda>r. vi_id r = dvi_id input \<and> vi_userId r = user_id u)
                       (VocabularyItems db)) = 0"
    by (simp add: r)
  have 2: "fst (deleteVocabularyItem input context db) \<noteq> Inl (NOT_FOUND ''Vocabulary item not found.'')
            \<longrightarrow> fst (deleteVocabularyItem input context db) = Inr ()"
    by (simp add: r)
  have 3: "snd (deleteVocabularyItem input context db) =
           db\<lparr>VocabularyItems :=
                filter (\<lambda>r. \<not> (vi_id r = dvi_id input \<and> vi_userId r = user_id u))
                  (VocabularyItems db)\<rparr>"
    by (simp add: r delete_where_def)
  have 4: "fst (deleteVocabularyItem input context (snd (deleteVocabularyItem input context db)))
           = Inl (NOT_FOUND ''Vocabulary item not found.'')"
    by (simp add: r delete_where_again)
  from 1 2 3 4 delete_where_zero show ?thesis by blast
qed

theorem deleteVocabularyItem_not_found_iff_witness:
  "requireUser (signed_in alice) = Inr alice \<and> string_min1 (dvi_id \<lparr>dvi_id = ''v3''\<rparr>) \<and>
   deleteVocabularyItem \<lparr>dvi_id = ''v3''\<rparr> (signed_in alice) sample_db =
     (Inr (), sample_db\<lparr>VocabularyItems :=
        [sample_item ''v1'' ''p1'' ''alice'' ''hola'',
         sample_item ''v2'' ''p2'' ''bob'' ''gato'',
         sample_item ''v4'' ''p1'' ''alice'' ''casa'']\<rparr>) \<and>
   fst (deleteVocabularyItem \<lparr>dvi_id = ''v3''\<rparr> (signed_in alice)
     (snd (deleteVocabularyItem \<lparr>dvi_id = ''v3''\<rparr> (signed_in alice) sample_db)))
     = Inl (NOT_FOUND ''Vocabulary item not found.'')"
proof -
  have a: "requireUser (signed_in alice) = Inr alice"
    by (simp add: requireUser_def signed_in_def)
  have b: "string_min1 (dvi_id \<lparr>dvi_id = ''v3''\<rparr>)"
    by (simp add: string_min1_def)
  have c: "deleteVocabularyItem \<lparr>dvi_id = ''v3''\<rparr> (signed_in alice) sample_db =
     (Inr (), sample_db\<lparr>VocabularyItems :=
        [sample_item ''v1'' ''p1'' ''alice'' ''hola'',
         sample_item ''v2'' ''p2'' ''bob'' ''gato'',
         sample_item ''v4'' ''p1'' ''alice'' ''casa'']\<rparr>)"
    by (simp add: deleteVocabularyItem_def deleteVocabularyItem_input_def
        deleteVocabularyItem_handler_def sample_defs run_defs Let_def)
  from deleteVocabularyItem_not_found_iff[OF a b, of sample_db] a b c show ?thesis by blast
qed

subsection \<open>Practice sessions\<close>

lemma startPracticeSession_success:
  assumes "startPracticeSession rt input context db = (Inr s, db')"
  shows "\<exists>u. requireUser context = Inr u \<and>
     s = \<lparr>ps_id = randomUUID rt,
          ps_languageProfileId = sps_languageProfileId input,
          ps_userId = user_id u,
          ps_mode = sps_mode input,
          ps_startedAt = new_Date rt,
          ps_endedAt = None,
          ps_totalQuestions = sps_totalQuestions input,
          ps_correctAnswers = None,
          ps_notes = sps_notes input,
          ps_createdAt = new_Date rt\<rparr> \<and>
     db' = db\<lparr>PracticeSessions := PracticeSessions db @ [s]\<rparr>"
  using assms
  by (auto simp: startPracticeSession_def defineAction_def startPracticeSession_handler_def
      startPracticeSession_input_def insert_values_def Let_def
      split: option.splits sum.splits if_splits)

lemma completePracticeSession_success:
  assumes "completePracticeSession rt input context db = (Inr s, db')"
  obtains u session where "requireUser context = Inr u"
    and "string_min1 (cps_id input)"
    and "first_row (select_where (\<lambda>r. ps_id r = cps_id input \<and> ps_userId r = user_id u)
           (PracticeSessions db)) = Some session"
    and "s = complete_set input session (nullish (cps_endedAt input) (new_Date rt)) session"
    and "db' = db\<lparr>PracticeSessions :=
           update_set_where
             (complete_set input session (nullish (cps_endedAt input) (new_Date rt)))
             (\<lambda>r. ps_id r = cps_id input \<and> ps_userId r = user_id u)
             (PracticeSessions db)\<rparr>"
proof -
  from assms have v: "string_min1 (cps_id input)"
    by (auto simp: completePracticeSession_def defineAction_def completePracticeSession_input_def
        split: if_splits)
  with assms have h: "completePracticeSession_handler rt input context db = (Inr s, db')"
    by (simp add: completePracticeSession_def defineAction_def completePracticeSession_input_def)
  then obtain u where u: "requireUser context = Inr u"
    by (auto simp: completePracticeSession_handler_def split: sum.splits)
  with h obtain session where e: "first_row (select_where
      (\<lambda>r. ps_id r = cps_id input \<and> ps_userId r = user_id u) (PracticeSessions db)) = Some session"
    by (auto simp: completePracticeSession_handler_def split: option.splits)
  show thesis
    by (rule that[OF u v e]) (use h u e in \<open>simp_all add: completePracticeSession_handler_def Let_def\<close>)
qed

text \<open>
  C8. Every successful \<^verbatim>\<open>startPracticeSession\<close> returns the session it appends to the table,
  with \<^verbatim>\<open>endedAt\<close> and \<^verbatim>\<open>correctAnswers\<close> null and \<^verbatim>\<open>startedAt\<close> and \<^verbatim>\<open>createdAt\<close> the
  time of the call. Every successful \<^verbatim>\<open>completePracticeSession\<close> (the primary key of the
  table being unique) rewrites the one row with the given id and the caller's \<^verbatim>\<open>userId\<close>
  and returns it: \<^verbatim>\<open>endedAt\<close> is the supplied value, or the time of the call when none is
  supplied, and each of \<^verbatim>\<open>totalQuestions\<close>, \<^verbatim>\<open>correctAnswers\<close> and \<^verbatim>\<open>notes\<close> keeps its
  stored value when the input omits it and takes the input's value when supplied.
\<close>

theorem session_lifecycle:
  "(startPracticeSession rt start context db = (Inr s, db') \<longrightarrow>
      ps_endedAt s = None \<and> ps_correctAnswers s = None \<and>
      ps_startedAt s = new_Date rt \<and> ps_createdAt s = new_Date rt \<and>
      db' = db\<lparr>PracticeSessions := PracticeSessions db @ [s]\<rparr>) \<and>
   (completePracticeSession rt input context db = (Inr c, db'') \<and>
    distinct (map ps_id (PracticeSessions db)) \<longrightarrow>
      (\<exists>u k old. requireUser context = Inr u \<and> k < length (PracticeSessions db) \<and>
         old = PracticeSessions db ! k \<and>
         ps_id old = cps_id input \<and> ps_userId old = user_id u \<and>
         db'' = db\<lparr>PracticeSessions := (PracticeSessions db)[k := c]\<rparr> \<and>
         ps_endedAt c =
           Some (case cps_endedAt input of None \<Rightarrow> new_Date rt | Some d \<Rightarrow> d) \<and>
         ps_totalQuestions c =
           (case cps_totalQuestions input of None \<Rightarrow> ps_totalQuestions old | Some v \<Rightarrow> Some v) \<and>
         ps_correctAnswers c =
           (case cps_correctAnswers input of None \<Rightarrow> ps_correctAnswers old | Some v \<Rightarrow> Some v) \<and>
         ps_notes c = (case cps_notes input of None \<Rightarrow> ps_notes old | Some v \<Rightarrow> Some v)))"
proof (rule conjI; rule impI)
  assume "startPracticeSession rt start context db = (Inr s, db')"
  from startPracticeSession_success[OF this]
  show "ps_endedAt s = None \<and> ps_correctAnswers s = None \<and>
      ps_startedAt s = new_Date rt \<and> ps_createdAt s = new_Date rt \<and>
      db' = db\<lparr>PracticeSessions := PracticeSessions db @ [s]\<rparr>"
    by auto
next
  assume h: "completePracticeSession rt input context db = (Inr c, db'') \<and>
    distinct (map ps_id (PracticeSessions db))"
  let ?c = "\<lambda>r. ps_id r = cps_id input \<and> ps_userId r = user_id u"
  from conjunct1[OF h] obtain u session where u: "requireUser context = Inr u"
    and e: "first_row (select_where (\<lambda>r. ps_id r = cps_id input \<and> ps_userId r = user_id u)
           (PracticeSessions db)) = Some session"
    and p: "c = complete_set input session (nullish (cps_endedAt input) (new_Date rt)) session"
    and d: "db'' = db\<lparr>PracticeSessions :=
           update_set_where
             (complete_set input session (nullish (cps_endedAt input) (new_Date rt)))
             (\<lambda>r. ps_id r = cps_id input \<and> ps_userId r = user_id u)
             (PracticeSessions db)\<rparr>"
    by (rule completePracticeSession_success)
  from h have dist: "distinct (map ps_id (PracticeSessions db))" by simp
  from first_row_filter_Some[OF e]
  have mem: "session \<in> set (PracticeSessions db)"
    and m: "ps_id session = cps_id input" "ps_userId session = user_id u" by simp_all
  obtain k where k: "k < length (PracticeSessions db)" "PracticeSessions db ! k = session"
    and upd: "\<And>f. update_set_where f (\<lambda>r. ps_id r = cps_id input \<and> ps_userId r = user_id u)
        (PracticeSessions db) = (PracticeSessions db)[k := f session]"
  proof (rule update_set_where_unique[where key = ps_id
        and c = "\<lambda>r. ps_id r = cps_id input \<and> ps_userId r = user_id u", OF dist mem])
    show "ps_id r = ps_id session" if "ps_id r = cps_id input \<and> ps_userId r = user_id u" for r
      using that m by simp
    show "ps_id session = cps_id input \<and> ps_userId session = user_id u" using m by simp
  qed (rule that)
  show "\<exists>u k old. requireUser context = Inr u \<and> k < length (PracticeSessions db) \<and>
         old = PracticeSessions db ! k \<and>
         ps_id old = cps_id input \<and> ps_userId old = user_id u \<and>
         db'' = db\<lparr>PracticeSessions := (PracticeSessions db)[k := c]\<rparr> \<and>
         ps_endedAt c =
           Some (case cps_endedAt input of None \<Rightarrow> new_Date rt | Some d \<Rightarrow> d) \<and>
         ps_totalQuestions c =
           (case cps_totalQuestions input of None \<Rightarrow> ps_totalQuestions old | Some v \<Rightarrow> Some v) \<and>
         ps_correctAnswers c =
           (case cps_correctAnswers input of None \<Rightarrow> ps_correctAnswers old | Some v \<Rightarrow> Some v) \<and>
         ps_notes c = (case cps_notes input of None \<Rightarrow> ps_notes old | Some v \<Rightarrow> Some v)"
    apply (rule exI[of _ u], rule exI[of _ k], rule exI[of _ session])
    using u k m by (simp add: p d upd complete_set_def nullish_def nullish_opt_def)
qed

text \<open>
  C10. For every successful \<^verbatim>\<open>completePracticeSession\<close> call, at every position of the table
  the row keeps its \<^verbatim>\<open>id\<close>, \<^verbatim>\<open>languageProfileId\<close>, \<^verbatim>\<open>userId\<close>, \<^verbatim>\<open>mode\<close>,
  \<^verbatim>\<open>startedAt\<close> and \<^verbatim>\<open>createdAt\<close>; a row with another id or another \<^verbatim>\<open>userId\<close> is
  unchanged altogether; the other two tables are unchanged; and the returned session has
  these six fields of a stored row with the given id and the caller's \<^verbatim>\<open>userId\<close>.
\<close>

theorem completePracticeSession_frame:
  assumes "completePracticeSession rt input context db = (Inr c, db')"
  shows "\<exists>u. requireUser context = Inr u \<and>
         LanguageProfiles db' = LanguageProfiles db \<and>
         VocabularyItems db' = VocabularyItems db \<and>
         length (PracticeSessions db') = length (PracticeSessions db) \<and>
         (\<forall>k. k < length (PracticeSessions db) \<longrightarrow>
            ps_id (PracticeSessions db' ! k) = ps_id (PracticeSessions db ! k) \<and>
            ps_languageProfileId (PracticeSessions db' ! k)
              = ps_languageProfileId (PracticeSessions db ! k) \<and>
            ps_userId (PracticeSessions db' ! k) = ps_userId (PracticeSessions db ! k) \<and>
            ps_mode (PracticeSessions db' ! k) = ps_mode (PracticeSessions db ! k) \<and>
            ps_startedAt (PracticeSessions db' ! k) = ps_startedAt (PracticeSessions db ! k) \<and>
            ps_createdAt (PracticeSessions db' ! k) = ps_createdAt (PracticeSessions db ! k) \<and>
            (ps_id (PracticeSessions db ! k) \<noteq> cps_id input \<or>
             ps_userId (PracticeSessions db ! k) \<noteq> user_id u
               \<longrightarrow> PracticeSessions db' ! k = PracticeSessions db ! k)) \<and>
         (\<exists>old. old \<in> set (PracticeSessions db) \<and>
            ps_id old = cps_id input \<and> ps_userId old = user_id u \<and>
            ps_id c = ps_id old \<and> ps_languageProfileId c = ps_languageProfileId old \<and>
            ps_userId c = ps_userId old \<and> ps_mode c = ps_mode old \<and>
            ps_startedAt c = ps_startedAt old \<and> ps_createdAt c = ps_createdAt old)"
proof -
  from assms obtain u session where u: "requireUser context = Inr u"
    and e: "first_row (select_where (\<lambda>r. ps_id r = cps_id input \<and> ps_userId r = user_id u)
           (PracticeSessions db)) = Some session"
    and p: "c = complete_set input session (nullish (cps_endedAt input) (new_Date rt)) session"
    and d: "db' = db\<lparr>PracticeSessions :=
           update_set_where
             (complete_set input session (nullish (cps_endedAt input) (new_Date rt)))
             (\<lambda>r. ps_id r = cps_id input \<and> ps_userId r = user_id u)
             (PracticeSessions db)\<rparr>"
    by (rule completePracticeSession_success)
  from first_row_filter_Some[OF e]
  have mem: "session \<in> set (PracticeSessions db)"
    and m: "ps_id session = cps_id input" "ps_userId session = user_id u" by simp_all
  have 1: "LanguageProfiles db' = LanguageProfiles db" "VocabularyItems db' = VocabularyItems db"
    "length (PracticeSessions db') = length (PracticeSessions db)"
    by (simp_all add: d update_set_where_def)
  have 2: "ps_id (PracticeSessions db' ! k) = ps_id (PracticeSessions db ! k) \<and>
            ps_languageProfileId (PracticeSessions db' ! k)
              = ps_languageProfileId (PracticeSessions db ! k) \<and>
            ps_userId (PracticeSessions db' ! k) = ps_userId (PracticeSessions db ! k) \<and>
            ps_mode (PracticeSessions db' ! k) = ps_mode (PracticeSessions db ! k) \<and>
            ps_startedAt (PracticeSessions db' ! k) = ps_startedAt (PracticeSessions db ! k) \<and>
            ps_createdAt (PracticeSessions db' ! k) = ps_createdAt (PracticeSessions db ! k) \<and>
            (ps_id (PracticeSessions db ! k) \<noteq> cps_id input \<or>
             ps_userId (PracticeSessions db ! k) \<noteq> user_id u
               \<longrightarrow> PracticeSessions db' ! k = PracticeSessions db ! k)"
    if "k < length (PracticeSessions db)" for k
    using that by (simp add: d update_set_where_def complete_set_def)
  have 3: "\<exists>old. old \<in> set (PracticeSessions db) \<and>
            ps_id old = cps_id input \<and> ps_userId old = user_id u \<and>
            ps_id c = ps_id old \<and> ps_languageProfileId c = ps_languageProfileId old \<and>
            ps_userId c = ps_userId old \<and> ps_mode c = ps_mode old \<and>
            ps_startedAt c = ps_startedAt old \<and> ps_createdAt c = ps_createdAt old"
    by (rule exI[of _ session]) (simp add: mem m p complete_set_def)
  from u 1 2 3 show ?thesis by blast
qed


lemmas session_defs = startPracticeSession_def startPracticeSession_input_def
  startPracticeSession_handler_def completePracticeSession_def completePracticeSession_input_def
  completePracticeSession_handler_def complete_set_def

lemma sample_start_run:
  "startPracticeSession sample_rt sample_start (signed_in alice) sample_db =
     (Inr sample_started,
      sample_db\<lparr>PracticeSessions := PracticeSessions sample_db @ [sample_started]\<rparr>)"
  by (simp add: session_defs sample_defs run_defs Let_def)

lemma sample_complete_run:
  "completePracticeSession sample_rt (sample_complete ''s1'') (signed_in alice) sample_db =
     (Inr sample_completed,
      sample_db\<lparr>PracticeSessions := [sample_completed, sample_session ''s2'' ''p2'' ''bob'']\<rparr>)"
  by (simp add: session_defs sample_defs run_defs Let_def)

theorem session_lifecycle_witness:
  "startPracticeSession sample_rt sample_start (signed_in alice) sample_db =
     (Inr sample_started,
      sample_db\<lparr>PracticeSessions := PracticeSessions sample_db @ [sample_started]\<rparr>) \<and>
   completePracticeSession sample_rt (sample_complete ''s1'') (signed_in alice) sample_db =
     (Inr sample_completed,
      sample_db\<lparr>PracticeSessions := [sample_completed, sample_session ''s2'' ''p2'' ''bob'']\<rparr>) \<and>
   distinct (map ps_id (PracticeSessions sample_db)) \<and>
   ps_endedAt sample_started = None \<and> ps_correctAnswers sample_started = None \<and>
   ps_startedAt sample_started = new_Date sample_rt \<and>
   ps_createdAt sample_started = new_Date sample_rt \<and>
   (\<exists>k. k < length (PracticeSessions sample_db) \<and>
      ps_endedAt sample_completed =
        Some (case cps_endedAt (sample_complete ''s1'') of
                None \<Rightarrow> new_Date sample_rt | Some d \<Rightarrow> d) \<and>
      ps_totalQuestions sample_completed =
        (case cps_totalQuestions (sample_complete ''s1'') of
           None \<Rightarrow> ps_totalQuestions (PracticeSessions sample_db ! k) | Some v \<Rightarrow> Some v) \<and>
      ps_correctAnswers sample_completed =
        (case cps_correctAnswers (sample_complete ''s1'') of
           None \<Rightarrow> ps_correctAnswers (PracticeSessions sample_db ! k) | Some v \<Rightarrow> Some v))"
proof -
  have c: "distinct (map ps_id (PracticeSessions sample_db))"
    by (simp add: sample_defs)
  note t = session_lifecycle[where rt = sample_rt and start = sample_start
      and db = sample_db and s = sample_started and input = "sample_complete ''s1''"
      and c = sample_completed]
  from t sample_start_run sample_complete_run c show ?thesis by blast
qed

theorem completePracticeSession_frame_witness:
  "completePracticeSession sample_rt (sample_complete ''s1'') (signed_in alice) sample_db =
     (Inr sample_completed,
      sample_db\<lparr>PracticeSessions := [sample_completed, sample_session ''s2'' ''p2'' ''bob'']\<rparr>) \<and>
   (\<exists>old. old \<in> set (PracticeSessions sample_db) \<and>
      ps_id old = cps_id (sample_complete ''s1'') \<and>
      ps_mode sample_completed = ps_mode old \<and>
      ps_startedAt sample_completed = ps_startedAt old \<and>
      ps_createdAt sample_completed = ps_createdAt old)"
  using completePracticeSession_frame[OF sample_complete_run] sample_complete_run by blast

subsection \<open>Isolation between identities\<close>

text \<open>Restriction of the tables to one owner.\<close>

lemma owned_by_sel [simp]:
  "LanguageProfiles (owned_by uid db) = filter (\<lambda>r. lp_userId r = uid) (LanguageProfiles db)"
  "VocabularyItems (owned_by uid db) = filter (\<lambda>r. vi_userId r = uid) (VocabularyItems db)"
  "PracticeSessions (owned_by uid db) = filter (\<lambda>r. ps_userId r = uid) (PracticeSessions db)"
  by (simp_all add: owned_by_def)

lemma owned_by_upd [simp]:
  "owned_by uid (db\<lparr>LanguageProfiles := lt\<rparr>)
     = (owned_by uid db)\<lparr>LanguageProfiles := filter (\<lambda>r. lp_userId r = uid) lt\<rparr>"
  "owned_by uid (db\<lparr>VocabularyItems := vt\<rparr>)
     = (owned_by uid db)\<lparr>VocabularyItems := filter (\<lambda>r. vi_userId r = uid) vt\<rparr>"
  "owned_by uid (db\<lparr>PracticeSessions := pt\<rparr>)
     = (owned_by uid db)\<lparr>PracticeSessions := filter (\<lambda>r. ps_userId r = uid) pt\<rparr>"
  by (simp_all add: owned_by_def)

lemma select_where_restrict:
  assumes "\<And>r. c r \<Longrightarrow> own r"
  shows "select_where c (filter own t) = select_where c t"
proof -
  have "(\<lambda>r. own r \<and> c r) = c" using assms by auto
  then show ?thesis by (simp add: select_where_def)
qed





lemma insert_values_fresh:
  "pk row \<notin> set (map pk t) \<Longrightarrow> insert_values pk row t = Inr (t @ [row])"
  by (simp add: insert_values_def)

lemma insert_values_fresh_restrict:
  "pk row \<notin> set (map pk t) \<Longrightarrow> insert_values pk row (filter own t) = Inr (filter own t @ [row])"
  by (auto simp: insert_values_def)

lemma select_owner [simp]:
  "select_where (\<lambda>r. lp_id r = x \<and> lp_userId r = uid) (filter (\<lambda>r. lp_userId r = uid) lt)
     = select_where (\<lambda>r. lp_id r = x \<and> lp_userId r = uid) lt"
  "select_where (\<lambda>r. lp_userId r = uid) (filter (\<lambda>r. lp_userId r = uid) lt)
     = select_where (\<lambda>r. lp_userId r = uid) lt"
  "select_where (\<lambda>r. lp_userId r = uid \<and> lp_isActive r) (filter (\<lambda>r. lp_userId r = uid) lt)
     = select_where (\<lambda>r. lp_userId r = uid \<and> lp_isActive r) lt"
  "select_where (\<lambda>r. vi_id r = x \<and> vi_userId r = uid) (filter (\<lambda>r. vi_userId r = uid) vt)
     = select_where (\<lambda>r. vi_id r = x \<and> vi_userId r = uid) vt"
  "select_where (\<lambda>r. vi_languageProfileId r = x \<and> vi_userId r = uid)
       (filter (\<lambda>r. vi_userId r = uid) vt)
     = select_where (\<lambda>r. vi_languageProfileId r = x \<and> vi_userId r = uid) vt"
  "select_where (\<lambda>r. ps_id r = x \<and> ps_userId r = uid) (filter (\<lambda>r. ps_userId r = uid) pt)
     = select_where (\<lambda>r. ps_id r = x \<and> ps_userId r = uid) pt"
  "select_where (\<lambda>r. ps_languageProfileId r = x \<and> ps_userId r = uid)
       (filter (\<lambda>r. ps_userId r = uid) pt)
     = select_where (\<lambda>r. ps_languageProfileId r = x \<and> ps_userId r = uid) pt"
  by (rule select_where_restrict, simp)+










lemma fresh_uuid_owned_by: "fresh_uuid rt db \<Longrightarrow> fresh_uuid rt (owned_by uid db)"
  by (auto simp: fresh_uuid_def)

lemma insert_fresh [simp]:
  "fresh_uuid rt db \<Longrightarrow> lp_id row = randomUUID rt \<Longrightarrow>
     insert_values lp_id row (LanguageProfiles db) = Inr (LanguageProfiles db @ [row])"
  "fresh_uuid rt db \<Longrightarrow> vi_id vrow = randomUUID rt \<Longrightarrow>
     insert_values vi_id vrow (VocabularyItems db) = Inr (VocabularyItems db @ [vrow])"
  "fresh_uuid rt db \<Longrightarrow> ps_id prow = randomUUID rt \<Longrightarrow>
     insert_values ps_id prow (PracticeSessions db) = Inr (PracticeSessions db @ [prow])"
  by (auto simp: fresh_uuid_def insert_values_def)

lemma insert_fresh_restricted [simp]:
  "fresh_uuid rt db \<Longrightarrow> lp_id row = randomUUID rt \<Longrightarrow>
     insert_values lp_id row (filter lown (LanguageProfiles db))
       = Inr (filter lown (LanguageProfiles db) @ [row])"
  "fresh_uuid rt db \<Longrightarrow> vi_id vrow = randomUUID rt \<Longrightarrow>
     insert_values vi_id vrow (filter vown (VocabularyItems db))
       = Inr (filter vown (VocabularyItems db) @ [vrow])"
  "fresh_uuid rt db \<Longrightarrow> ps_id prow = randomUUID rt \<Longrightarrow>
     insert_values ps_id prow (filter pown (PracticeSessions db))
       = Inr (filter pown (PracticeSessions db) @ [prow])"
  by (auto simp: fresh_uuid_def insert_values_def)









lemma envelope_simps [simp]:
  "fst (envelope w r) = (case fst r of Inl e \<Rightarrow> Inl e | Inr d \<Rightarrow> Inr (w d))"
  "snd (envelope w r) = snd r"
  by (simp_all add: envelope_def)










subsection \<open>The invariants of the store\<close>

text \<open>
  The two conditions on the store that the properties above assume, unique primary keys and
  references to profiles of the same \<^verbatim>\<open>userId\<close>, are kept by every action.
\<close>

lemma update_set_where_keys:
  assumes "\<And>r. key (f r) = key r"
  shows "map key (update_set_where f c t) = map key t"
  using assms by (simp add: update_set_where_def)

lemma delete_where_distinct:
  "distinct (map key t) \<Longrightarrow> distinct (map key (fst (delete_where c t)))"
  by (simp add: delete_where_def distinct_map_filter)

lemma insert_values_distinct:
  "insert_values key row t = Inr t' \<Longrightarrow> distinct (map key t) \<Longrightarrow> distinct (map key t')"
  by (auto simp: insert_values_def split: if_splits)

lemma insert_values_Inr: "insert_values key row t = Inr t' \<Longrightarrow> t' = t @ [row]"
  by (auto simp: insert_values_def split: if_splits)

lemma profile_update_keys:
  "map lp_id (update_set_where
        (\<lambda>r. r\<lparr>lp_targetLanguage := a1, lp_nativeLanguage := a2, lp_proficiencyLevel := a3,
               lp_goals := a4, lp_isActive := a5, lp_updatedAt := a6\<rparr>) c t) = map lp_id t"
  "map (\<lambda>p. (lp_id p, lp_userId p)) (update_set_where
        (\<lambda>r. r\<lparr>lp_targetLanguage := a1, lp_nativeLanguage := a2, lp_proficiencyLevel := a3,
               lp_goals := a4, lp_isActive := a5, lp_updatedAt := a6\<rparr>) c t)
     = map (\<lambda>p. (lp_id p, lp_userId p)) t"
  by (rule update_set_where_keys, simp)+

lemma item_update_keys:
  "map vi_id (update_set_where (upsert_set input now) c t) = map vi_id t"
  by (rule update_set_where_keys) (simp add: upsert_set_def)

lemma session_update_keys:
  "map ps_id (update_set_where (complete_set input s e) c t) = map ps_id t"
  "map (\<lambda>r. (ps_languageProfileId r, ps_userId r)) (update_set_where (complete_set input s e) c t)
     = map (\<lambda>r. (ps_languageProfileId r, ps_userId r)) t"
  by (rule update_set_where_keys, simp add: complete_set_def)+

text \<open>Every action keeps the primary keys unique.\<close>

lemma server_keeps_primary_keys:
  assumes "primary_keys db"
  shows "primary_keys (snd (server rt call context db))"
proof (cases call)
  case (Call_createLanguageProfile i)
  with assms show ?thesis
    by (auto simp: server_def createLanguageProfile_def defineAction_def
        createLanguageProfile_handler_def primary_keys_def Let_def
        split: option.splits sum.splits dest: insert_values_distinct)
next
  case (Call_updateLanguageProfile i)
  with assms show ?thesis
    by (auto simp: server_def updateLanguageProfile_def defineAction_def
        updateLanguageProfile_handler_def primary_keys_def Let_def profile_update_keys
        split: option.splits sum.splits)
next
  case (Call_listMyLanguageProfiles i)
  with assms show ?thesis
    by (auto simp: server_def listMyLanguageProfiles_def defineAction_def
        listMyLanguageProfiles_handler_def Let_def split: option.splits sum.splits)
next
  case (Call_upsertVocabularyItem i)
  with assms show ?thesis
    by (auto simp: server_def upsertVocabularyItem_def defineAction_def
        upsertVocabularyItem_handler_def primary_keys_def Let_def item_update_keys
        split: option.splits sum.splits dest: insert_values_distinct)
next
  case (Call_deleteVocabularyItem i)
  with assms show ?thesis
    by (auto simp: server_def deleteVocabularyItem_def defineAction_def
        deleteVocabularyItem_handler_def primary_keys_def Let_def delete_where_def
        distinct_map_filter split: option.splits sum.splits)
next
  case (Call_listVocabularyItems i)
  with assms show ?thesis
    by (auto simp: server_def listVocabularyItems_def defineAction_def
        listVocabularyItems_handler_def Let_def split: option.splits sum.splits)
next
  case (Call_startPracticeSession i)
  with assms show ?thesis
    by (auto simp: server_def startPracticeSession_def defineAction_def
        startPracticeSession_handler_def primary_keys_def Let_def
        split: option.splits sum.splits dest: insert_values_distinct)
next
  case (Call_completePracticeSession i)
  with assms show ?thesis
    by (auto simp: server_def completePracticeSession_def defineAction_def
        completePracticeSession_handler_def primary_keys_def Let_def session_update_keys
        split: option.splits sum.splits)
next
  case (Call_listPracticeSessions i)
  with assms show ?thesis
    by (auto simp: server_def listPracticeSessions_def defineAction_def
        listPracticeSessions_handler_def Let_def split: option.splits sum.splits)
qed

text \<open>The referential invariant, read through the (id, owner) pairs of the profiles.\<close>

lemma references_owned_iff:
  "references_owned db \<longleftrightarrow>
     (\<forall>r\<in>set (VocabularyItems db).
        (vi_languageProfileId r, vi_userId r)
          \<in> set (map (\<lambda>p. (lp_id p, lp_userId p)) (LanguageProfiles db))) \<and>
     (\<forall>r\<in>set (PracticeSessions db).
        (ps_languageProfileId r, ps_userId r)
          \<in> set (map (\<lambda>p. (lp_id p, lp_userId p)) (LanguageProfiles db)))"
  unfolding references_owned_def list_all_iff list_ex_iff set_map image_iff
  by (intro arg_cong2[where f = "(\<and>)"] ball_cong refl bex_cong) auto

lemma first_row_pair:
  assumes "first_row (select_where (\<lambda>r. lp_id r = x \<and> lp_userId r = uid) t) = Some p"
  shows "(x, uid) \<in> set (map (\<lambda>p. (lp_id p, lp_userId p)) t)"
  using first_row_filter_Some[OF assms] by (auto simp: image_iff)

lemma set_update_set_where:
  "r \<in> set (update_set_where f c t) \<Longrightarrow> r \<in> set t \<or> (\<exists>r'\<in>set t. c r' \<and> r = f r')"
  by (auto simp: update_set_where_def split: if_splits)

lemma references_owned_insert_item:
  assumes "references_owned db"
    and "(vi_languageProfileId row, vi_userId row)
           \<in> set (map (\<lambda>p. (lp_id p, lp_userId p)) (LanguageProfiles db))"
  shows "references_owned (db\<lparr>VocabularyItems := VocabularyItems db @ [row]\<rparr>)"
  using assms unfolding references_owned_iff by auto

lemma references_owned_insert_session:
  assumes "references_owned db"
    and "(ps_languageProfileId row, ps_userId row)
           \<in> set (map (\<lambda>p. (lp_id p, lp_userId p)) (LanguageProfiles db))"
  shows "references_owned (db\<lparr>PracticeSessions := PracticeSessions db @ [row]\<rparr>)"
  using assms unfolding references_owned_iff by auto

lemma references_owned_insert_profile:
  assumes "references_owned db"
  shows "references_owned (db\<lparr>LanguageProfiles := LanguageProfiles db @ [row]\<rparr>)"
  using assms unfolding references_owned_iff by auto

lemma references_owned_sessions_update:
  assumes "references_owned db"
    and "map (\<lambda>r. (ps_languageProfileId r, ps_userId r)) t
           = map (\<lambda>r. (ps_languageProfileId r, ps_userId r)) (PracticeSessions db)"
  shows "references_owned (db\<lparr>PracticeSessions := t\<rparr>)"
proof -
  have "(ps_languageProfileId r, ps_userId r)
      \<in> set (map (\<lambda>p. (lp_id p, lp_userId p)) (LanguageProfiles db))" if "r \<in> set t" for r
  proof -
    from that have "(ps_languageProfileId r, ps_userId r)
        \<in> set (map (\<lambda>r. (ps_languageProfileId r, ps_userId r)) t)"
      by simp
    with assms(2) obtain r0 where "r0 \<in> set (PracticeSessions db)"
        "(ps_languageProfileId r, ps_userId r) = (ps_languageProfileId r0, ps_userId r0)"
      by auto
    with assms(1) show ?thesis by (simp add: references_owned_iff)
  qed
  with assms(1) show ?thesis by (simp add: references_owned_iff)
qed

lemma startPracticeSession_failure:
  "fst (startPracticeSession rt input context db) = Inl e \<Longrightarrow>
   snd (startPracticeSession rt input context db) = db"
  by (auto simp: startPracticeSession_def defineAction_def startPracticeSession_handler_def
      Let_def split: option.splits sum.splits)

lemma completePracticeSession_failure:
  "fst (completePracticeSession rt input context db) = Inl e \<Longrightarrow>
   snd (completePracticeSession rt input context db) = db"
  by (auto simp: completePracticeSession_def defineAction_def completePracticeSession_handler_def
      Let_def split: option.splits sum.splits)

lemma startPracticeSession_profile:
  assumes "startPracticeSession rt input context db = (Inr s, db')"
    and "requireUser context = Inr u"
  shows "\<exists>p. first_row (select_where
      (\<lambda>r. lp_id r = sps_languageProfileId input \<and> lp_userId r = user_id u)
      (LanguageProfiles db)) = Some p"
  using assms
  by (auto simp: startPracticeSession_def defineAction_def startPracticeSession_handler_def
      startPracticeSession_input_def Let_def split: option.splits sum.splits if_splits)

text \<open>Every action keeps every item and session under a profile of its own \<^verbatim>\<open>userId\<close>.\<close>

lemma server_keeps_references:
  assumes "references_owned db"
  shows "references_owned (snd (server rt call context db))"
proof (cases call)
  case (Call_createLanguageProfile i)
  with assms show ?thesis
    by (auto simp: server_def createLanguageProfile_def defineAction_def
        createLanguageProfile_handler_def references_owned_iff Let_def
        split: option.splits sum.splits dest!: insert_values_Inr)
next
  case (Call_updateLanguageProfile i)
  have keep: "references_owned (db\<lparr>LanguageProfiles := update_set_where
        (\<lambda>r. r\<lparr>lp_targetLanguage := a1, lp_nativeLanguage := a2, lp_proficiencyLevel := a3,
               lp_goals := a4, lp_isActive := a5, lp_updatedAt := a6\<rparr>) c
        (LanguageProfiles db)\<rparr>)" for a1 a2 a3 a4 a5 a6 c
  proof -
    have sel: "LanguageProfiles (db\<lparr>LanguageProfiles := x\<rparr>) = x"
      "VocabularyItems (db\<lparr>LanguageProfiles := x\<rparr>) = VocabularyItems db"
      "PracticeSessions (db\<lparr>LanguageProfiles := x\<rparr>) = PracticeSessions db" for x
      by simp_all
    from assms show ?thesis
      unfolding references_owned_iff sel profile_update_keys(2) .
  qed
  from Call_updateLanguageProfile assms show ?thesis
    by (simp add: server_def updateLanguageProfile_def defineAction_def
        updateLanguageProfile_handler_def Let_def keep split: option.splits sum.splits)
next
  case (Call_listMyLanguageProfiles i)
  with assms show ?thesis
    by (auto simp: server_def listMyLanguageProfiles_def defineAction_def
        listMyLanguageProfiles_handler_def Let_def split: option.splits sum.splits)
next
  case (Call_upsertVocabularyItem i)
  show ?thesis
  proof (cases "fst (upsertVocabularyItem rt i context db)")
    case (Inl e)
    from upsertVocabularyItem_failure[OF this] Call_upsertVocabularyItem assms
    show ?thesis by (simp add: server_def envelope_def)
  next
    case (Inr item)
    then have "upsertVocabularyItem rt i context db
        = (Inr item, snd (upsertVocabularyItem rt i context db))"
      by (simp add: prod_eq_iff)
    from upsertVocabularyItem_success[OF this]
    obtain u where u: "requireUser context = Inr u"
      and v: "upsertVocabularyItem_input i \<noteq> None"
      by blast
    from v have h: "upsertVocabularyItem rt i context db
        = upsertVocabularyItem_handler rt i context db"
      by (auto simp: upsertVocabularyItem_def defineAction_def upsertVocabularyItem_input_def
          split: if_splits)
    from Inr u h obtain p where p: "first_row (select_where
        (\<lambda>r. lp_id r = uvi_languageProfileId i \<and> lp_userId r = user_id u)
        (LanguageProfiles db)) = Some p"
      by (auto simp: upsertVocabularyItem_handler_def split: option.splits)
    note pr = first_row_pair[OF p]
    show ?thesis
    proof (cases "truthy (uvi_id i)")
      case None
      from u p h Inr None assms pr Call_upsertVocabularyItem show ?thesis
        by (auto simp: server_def envelope_def upsertVocabularyItem_handler_def Let_def
            split: sum.splits dest!: insert_values_Inr intro!: references_owned_insert_item)
    next
      case (Some iid)
      with u p h Inr have s: "snd (upsertVocabularyItem rt i context db)
          = db\<lparr>VocabularyItems := update_set_where (upsert_set i (new_Date rt))
               (\<lambda>r. vi_id r = iid \<and> vi_userId r = user_id u) (VocabularyItems db)\<rparr>"
        by (auto simp: upsertVocabularyItem_handler_def Let_def split: option.splits)
      have "(vi_languageProfileId r, vi_userId r)
          \<in> set (map (\<lambda>p. (lp_id p, lp_userId p)) (LanguageProfiles db))"
        if "r \<in> set (update_set_where (upsert_set i (new_Date rt))
               (\<lambda>r. vi_id r = iid \<and> vi_userId r = user_id u) (VocabularyItems db))" for r
        using set_update_set_where[OF that] assms pr
        by (auto simp: references_owned_iff upsert_set_def)
      with assms s Call_upsertVocabularyItem show ?thesis
        by (simp add: server_def envelope_def references_owned_iff)
    qed
  qed
next
  case (Call_deleteVocabularyItem i)
  with assms show ?thesis
    by (auto simp: server_def deleteVocabularyItem_def defineAction_def
        deleteVocabularyItem_handler_def references_owned_iff Let_def delete_where_def
        split: option.splits sum.splits)
next
  case (Call_listVocabularyItems i)
  with assms show ?thesis
    by (auto simp: server_def listVocabularyItems_def defineAction_def
        listVocabularyItems_handler_def Let_def split: option.splits sum.splits)
next
  case (Call_startPracticeSession i)
  show ?thesis
  proof (cases "fst (startPracticeSession rt i context db)")
    case (Inl e)
    from startPracticeSession_failure[OF this] Call_startPracticeSession assms
    show ?thesis by (simp add: server_def envelope_def)
  next
    case (Inr s)
    then have run: "startPracticeSession rt i context db
        = (Inr s, snd (startPracticeSession rt i context db))"
      by (simp add: prod_eq_iff)
    from startPracticeSession_success[OF run]
    obtain u where u: "requireUser context = Inr u"
      and sv: "s = \<lparr>ps_id = randomUUID rt,
          ps_languageProfileId = sps_languageProfileId i,
          ps_userId = user_id u,
          ps_mode = sps_mode i,
          ps_startedAt = new_Date rt,
          ps_endedAt = None,
          ps_totalQuestions = sps_totalQuestions i,
          ps_correctAnswers = None,
          ps_notes = sps_notes i,
          ps_createdAt = new_Date rt\<rparr>"
      and d: "snd (startPracticeSession rt i context db)
          = db\<lparr>PracticeSessions := PracticeSessions db @ [s]\<rparr>"
      by blast
    have s: "ps_languageProfileId s = sps_languageProfileId i" "ps_userId s = user_id u"
      by (simp_all add: sv)
    from startPracticeSession_profile[OF run u] obtain p where p: "first_row (select_where
        (\<lambda>r. lp_id r = sps_languageProfileId i \<and> lp_userId r = user_id u)
        (LanguageProfiles db)) = Some p"
      by blast
    from first_row_pair[OF p] s assms
    have "references_owned (db\<lparr>PracticeSessions := PracticeSessions db @ [s]\<rparr>)"
      by (intro references_owned_insert_session) simp_all
    with d Call_startPracticeSession show ?thesis by (simp add: server_def envelope_def)
  qed
next
  case (Call_completePracticeSession i)
  show ?thesis
  proof (cases "fst (completePracticeSession rt i context db)")
    case (Inl e)
    from completePracticeSession_failure[OF this] Call_completePracticeSession assms
    show ?thesis by (simp add: server_def envelope_def)
  next
    case (Inr s)
    then have run: "completePracticeSession rt i context db
        = (Inr s, snd (completePracticeSession rt i context db))"
      by (simp add: prod_eq_iff)
    have "\<exists>(u::User) session. snd (completePracticeSession rt i context db) = db\<lparr>PracticeSessions :=
           update_set_where
             (complete_set i session (nullish (cps_endedAt i) (new_Date rt)))
             (\<lambda>r. ps_id r = cps_id i \<and> ps_userId r = user_id u)
             (PracticeSessions db)\<rparr>"
      by (rule completePracticeSession_success[OF run]) blast
    then obtain u :: User and session where
      d: "snd (completePracticeSession rt i context db) = db\<lparr>PracticeSessions :=
           update_set_where
             (complete_set i session (nullish (cps_endedAt i) (new_Date rt)))
             (\<lambda>r. ps_id r = cps_id i \<and> ps_userId r = user_id u)
             (PracticeSessions db)\<rparr>"
      by blast
    from assms have "references_owned (db\<lparr>PracticeSessions :=
           update_set_where
             (complete_set i session (nullish (cps_endedAt i) (new_Date rt)))
             (\<lambda>r. ps_id r = cps_id i \<and> ps_userId r = user_id u)
             (PracticeSessions db)\<rparr>)"
      by (rule references_owned_sessions_update) (rule session_update_keys(2))
    with d Call_completePracticeSession show ?thesis by (simp add: server_def envelope_def)
  qed
next
  case (Call_listPracticeSessions i)
  with assms show ?thesis
    by (auto simp: server_def listPracticeSessions_def defineAction_def
        listPracticeSessions_handler_def Let_def split: option.splits sum.splits)
qed

text \<open>The empty store satisfies both invariants, so every store the actions reach does.\<close>

lemma empty_store_invariants:
  "primary_keys \<lparr>LanguageProfiles = [], VocabularyItems = [], PracticeSessions = []\<rparr>"
  "references_owned \<lparr>LanguageProfiles = [], VocabularyItems = [], PracticeSessions = []\<rparr>"
  by (simp_all add: primary_keys_def references_owned_def)

end
